theory Spec2Isabelle
  imports Complex_Main
begin

section \<open>termoPy: ideal-gas processes and cycles\<close>

text \<open>
  A shallow embedding of \<^verbatim>\<open>src/termoPy.py\<close>.

  Numbers. The program computes with IEEE double precision floats; here every float is a
  \<^typ>\<open>real\<close> and every operation is the exact one. Rounding, overflow, inf and nan are
  therefore not part of the model, and no theorem below bounds a computed residual for all
  inputs: the theorems are about control flow that arithmetic does not decide, or about
  single runs whose values lie far from every tolerance. Python's \<^verbatim>\<open>x ** y\<close> is
  \<^term>\<open>x powr y\<close> and \<^verbatim>\<open>np.log\<close> is \<^term>\<open>ln\<close>: the same functions for a positive
  base or argument, which is where the theorems use them (numpy yields nan or \<open>-inf\<close>
  elsewhere).

  Errors. Every \<^verbatim>\<open>assert\<close> of the program raises Python's AssertionError. The model
  gives each assertion the name the specification's error taxonomy has for it (chosen by the
  assertion's message), and adds the exceptions that the interpreter raises by itself:
  a scalar division by zero, an index into an empty array, a missing dictionary key,
  arithmetic on \<^verbatim>\<open>None\<close>. Two constructors mark where Python goes on with values
  that are not reals: \<open>ComplexResult\<close> (a negative base under a fractional exponent gives
  a complex number) and \<open>NoTrajectory\<close> (an array that holds \<^verbatim>\<open>None\<close>).
  Operations on numpy arrays never raise (numpy yields inf or nan and a warning), so the
  array operations are the total functions on reals, meaningful where no denominator is zero.
  A scalar read from an array is a numpy scalar and divides like an array; the model lets
  every scalar division by zero raise, which differs from the program only in a cycle whose
  intermediate volume or temperature is zero.
\<close>

subsection \<open>Module constants\<close>

definition atm :: real where "atm = 101300"
definition L :: real where "L = 1 / 1000"
definition R :: real where "R = 8314 / 1000"
definition K :: nat where "K = 10000"
definition allowed_error :: real where "allowed_error = 1 / 10000"

subsection \<open>Errors\<close>

datatype error =
    UnderspecifiedStateError
  | InconsistentStateError
  | InvalidCompressionRatioError "real option"
  | EfficiencyMismatchError
  | ClosureViolationError
  | ZeroDivisionError
  | IndexError
  | KeyError
  | TypeError
  | ComplexResult
  | NoTrajectory

fun bind :: "error + 'a \<Rightarrow> ('a \<Rightarrow> error + 'b) \<Rightarrow> error + 'b" where
  "bind (Inl e) f = Inl e"
| "bind (Inr x) f = f x"

text \<open>Division of two Python scalars.\<close>

definition pydiv :: "real \<Rightarrow> real \<Rightarrow> error + real" where
  "pydiv x y = (if y = 0 then Inl ZeroDivisionError else Inr (x / y))"

text \<open>\<^verbatim>\<open>xs[-1]\<close> and \<^verbatim>\<open>xs[0]\<close> on an array.\<close>

definition last_py :: "real list \<Rightarrow> error + real" where
  "last_py xs = (if xs = [] then Inl IndexError else Inr (last xs))"

definition first_py :: "real list \<Rightarrow> error + real" where
  "first_py xs = (if xs = [] then Inl IndexError else Inr (hd xs))"

subsection \<open>numpy\<close>

text \<open>
  \<^verbatim>\<open>np.linspace(start, stop, num)\<close> with the default \<^verbatim>\<open>endpoint=True\<close>:
  \<^verbatim>\<open>arange(num) * ((stop - start) / (num - 1)) + start\<close>, the last element then set to
  \<^verbatim>\<open>stop\<close>; a single element is \<^verbatim>\<open>start\<close>.
\<close>

definition linspace :: "real \<Rightarrow> real \<Rightarrow> nat \<Rightarrow> real list" where
  "linspace start stop num =
     (if num = 0 then []
      else if num = 1 then [start]
      else map (\<lambda>i. real i * ((stop - start) / real (num - 1)) + start) [0..<num - 1] @ [stop])"

text \<open>\<^verbatim>\<open>c * np.ones(num)\<close>.\<close>

definition ones_times :: "real \<Rightarrow> nat \<Rightarrow> real list" where
  "ones_times c num = replicate num c"

subsection \<open>The substance table\<close>

text \<open>
  \<^verbatim>\<open>data/substances.JSON\<close> is not part of the sources, so the table is a parameter:
  the dictionary in its order, each entry with the five keys the program reads.
\<close>

record substance =
  formula :: string
  sub_M :: real
  sub_Cv :: real
  sub_Cp :: real
  sub_gamma :: real

type_synonym substances = "(string \<times> substance) list"

text \<open>
  \<^verbatim>\<open>set_internal_values(gas)\<close>, the same in BaseProcess, IdealGas and BaseCycle: the entry
  and the name it is found under. An unknown identifier falls back to \<^verbatim>\<open>"Air"\<close>.
\<close>

definition set_internal_values :: "substances \<Rightarrow> string option \<Rightarrow> error + (substance \<times> string)" where
  "set_internal_values subs gas =
     (case (case gas of None \<Rightarrow> None | Some g \<Rightarrow> map_of subs g) of
        Some m \<Rightarrow> Inr (m, the gas)
      | None \<Rightarrow>
          (case (case gas of None \<Rightarrow> [] | Some g \<Rightarrow> filter (\<lambda>i. formula (snd i) = g) subs) of
             i # _ \<Rightarrow> Inr (snd i, fst i)
           | [] \<Rightarrow>
               (case map_of subs ''Air'' of
                  Some m \<Rightarrow> Inr (m, ''Air'')
                | None \<Rightarrow> Inl KeyError)))"

subsection \<open>Processes\<close>

datatype kind = Isothermal | Isobaric | Isochoric | Adiabatic

text \<open>What a caller may pass as \<^verbatim>\<open>gas\<close>: nothing, a name, or a table entry.\<close>

datatype gas_arg = NoGas | GasName string | GasMaterial substance

text \<open>
  A process object when its constructor has returned: \<^verbatim>\<open>_find_missing\<close> has run, so
  \<^verbatim>\<open>n\<close>, \<^verbatim>\<open>P1\<close>, \<^verbatim>\<open>V1\<close> and \<^verbatim>\<open>T1\<close> are numbers. The class
  of the object is the field \<open>kind\<close>. \<^verbatim>\<open>M\<close> is \<^verbatim>\<open>None\<close> unless something sets it.
\<close>

record process =
  kind :: kind
  n :: real
  P1 :: real
  V1 :: real
  T1 :: real
  Cv :: real
  Cp :: real
  gamma :: real
  diameter :: real
  M :: "real option"

text \<open>
  The heat capacities chosen in \<^verbatim>\<open>BaseProcess.__init__\<close>. The parameter \<^verbatim>\<open>gas\<close>
  is accepted and never read there.
\<close>

definition BaseProcess_capacities :: "bool \<Rightarrow> bool \<Rightarrow> gas_arg \<Rightarrow> real \<times> real \<times> real" where
  "BaseProcess_capacities monatomic diatomic gas =
     (if monatomic then (3 / 2 * R, 5 / 2 * R, 5 / 3)
      else if diatomic then (5 / 2 * R, 7 / 2 * R, 7 / 5)
      else (3 / 2 * R, 5 / 2 * R, 5 / 3))"

definition defined_count :: "real option list \<Rightarrow> nat" where
  "defined_count xs = length (filter (\<lambda>x. x \<noteq> None) xs)"

text \<open>
  \<^verbatim>\<open>BaseProcess._find_missing\<close>, returning \<^verbatim>\<open>(n, P1, V1, T1)\<close>. The helpers
  \<^verbatim>\<open>P\<close>, \<^verbatim>\<open>V\<close>, \<^verbatim>\<open>T\<close> and \<^verbatim>\<open>get_n\<close> are written out at their calls.
\<close>

definition find_missing ::
  "real option \<Rightarrow> real option \<Rightarrow> real option \<Rightarrow> real option \<Rightarrow> error + (real \<times> real \<times> real \<times> real)" where
  "find_missing n0 p1 v1 t1 =
     (if \<not> defined_count [p1, v1, t1, n0] > 2 then Inl UnderspecifiedStateError
      else if p1 = None then
        bind (pydiv (the n0 * R * the t1) (the v1)) (\<lambda>p. Inr (the n0, p, the v1, the t1))
      else if v1 = None then
        bind (pydiv (the n0 * R * the t1) (the p1)) (\<lambda>v. Inr (the n0, the p1, v, the t1))
      else if t1 = None then
        bind (pydiv (the p1 * the v1) (the n0 * R)) (\<lambda>t. Inr (the n0, the p1, the v1, t))
      else if n0 = None then
        bind (pydiv (the p1 * the v1) (R * the t1)) (\<lambda>m. Inr (m, the p1, the v1, the t1))
      else Inr (the n0, the p1, the v1, the t1))"

text \<open>The constructors of the four variants; \<^verbatim>\<open>Adiabatic\<close> may be given its own gamma.\<close>

definition new_process ::
  "kind \<Rightarrow> real option \<Rightarrow> real option \<Rightarrow> real option \<Rightarrow> real option \<Rightarrow> real option \<Rightarrow>
   bool \<Rightarrow> bool \<Rightarrow> gas_arg \<Rightarrow> error + process" where
  "new_process k gamma0 n0 p1 v1 t1 monatomic diatomic gas =
     (case BaseProcess_capacities monatomic diatomic gas of (cv, cp, g) \<Rightarrow>
        bind (find_missing n0 p1 v1 t1) (\<lambda>(m, p, v, t).
          Inr \<lparr> kind = k, n = m, P1 = p, V1 = v, T1 = t, Cv = cv, Cp = cp,
                gamma = (case gamma0 of None \<Rightarrow> g | Some g' \<Rightarrow> g'),
                diameter = 3 / 10 ^ 10, M = None \<rparr>))"

definition Isothermal_init ::
  "real option \<Rightarrow> real option \<Rightarrow> real option \<Rightarrow> real option \<Rightarrow> bool \<Rightarrow> bool \<Rightarrow> gas_arg \<Rightarrow> error + process" where
  "Isothermal_init n0 t1 v1 p1 monatomic diatomic gas =
     new_process Isothermal None n0 p1 v1 t1 monatomic diatomic gas"

definition Isobaric_init ::
  "real option \<Rightarrow> real option \<Rightarrow> real option \<Rightarrow> real option \<Rightarrow> bool \<Rightarrow> bool \<Rightarrow> gas_arg \<Rightarrow> error + process" where
  "Isobaric_init n0 p1 t1 v1 monatomic diatomic gas =
     new_process Isobaric None n0 p1 v1 t1 monatomic diatomic gas"

definition Isochoric_init ::
  "real option \<Rightarrow> real option \<Rightarrow> real option \<Rightarrow> real option \<Rightarrow> bool \<Rightarrow> bool \<Rightarrow> gas_arg \<Rightarrow> error + process" where
  "Isochoric_init n0 v1 t1 p1 monatomic diatomic gas =
     new_process Isochoric None n0 p1 v1 t1 monatomic diatomic gas"

definition Adiabatic_init ::
  "real option \<Rightarrow> real option \<Rightarrow> real option \<Rightarrow> real option \<Rightarrow> real option \<Rightarrow> bool \<Rightarrow> bool \<Rightarrow> gas_arg \<Rightarrow>
   error + process" where
  "Adiabatic_init gamma0 n0 p1 v1 t1 monatomic diatomic gas =
     new_process Adiabatic gamma0 n0 p1 v1 t1 monatomic diatomic gas"

subsection \<open>The free-standing gas state\<close>

definition none_count :: "real option list \<Rightarrow> nat" where
  "none_count xs = length (filter (\<lambda>x. x = None) xs)"

text \<open>\<^verbatim>\<open>IdealGas.find_missing_values\<close>, returning \<^verbatim>\<open>(P, V, T, n)\<close>.\<close>

definition find_missing_values ::
  "real option \<Rightarrow> real option \<Rightarrow> real option \<Rightarrow> real option \<Rightarrow> error + (real \<times> real \<times> real \<times> real)" where
  "find_missing_values p v t n0 =
     (if none_count [p, v, t, n0] \<noteq> 1 then Inl UnderspecifiedStateError
      else if p = None then
        bind (pydiv (the n0 * R * the t) (the v)) (\<lambda>p'. Inr (p', the v, the t, the n0))
      else if v = None then
        bind (pydiv (the n0 * R * the t) (the p)) (\<lambda>v'. Inr (the p, v', the t, the n0))
      else if t = None then
        bind (pydiv (the p * the v) (the n0 * R)) (\<lambda>t'. Inr (the p, the v, t', the n0))
      else if n0 = None then
        bind (pydiv (the p * the v) (R * the t)) (\<lambda>m. Inr (the p, the v, the t, m))
      else if \<bar>the p * the v - the n0 * R * the t\<bar> < 1 / 10 ^ 10
        then Inr (the p, the v, the t, the n0)
      else Inl InconsistentStateError)"

subsection \<open>Trajectories and derived quantities\<close>

text \<open>
  A process object after one of its \<^verbatim>\<open>generate_data_from_*\<close> methods has returned: the
  three arrays and everything \<^verbatim>\<open>_generate_extra_data\<close> stores. The kinetic-theory
  attributes, computed only when \<^verbatim>\<open>M\<close> is set, and the plots are left out: no other
  attribute depends on them.
\<close>

record generated = process +
  volume :: "real list"
  pressure :: "real list"
  temperature :: "real list"
  internal_energy :: "real list"
  entropy :: "real list"
  ideal_gas_law_consistency :: "real list"
  work_done_by :: real
  work_done_on :: real
  heat_absorbed :: real
  heat_released :: real
  first_law_consistency :: real

text \<open>\<^verbatim>\<open>calculate_work_done_by\<close>, as each class overrides it.\<close>

definition calculate_work_done_by :: "process \<Rightarrow> real list \<Rightarrow> real list \<Rightarrow> error + real" where
  "calculate_work_done_by p vol temp =
     (case kind p of
        Isothermal \<Rightarrow> bind (last_py vol) (\<lambda>v. Inr (R * n p * T1 p * ln (v / V1 p)))
      | Isobaric \<Rightarrow> bind (last_py vol) (\<lambda>v. Inr (P1 p * (v - V1 p)))
      | Isochoric \<Rightarrow> Inr 0
      | Adiabatic \<Rightarrow> bind (last_py temp) (\<lambda>t. Inr (- (n p * Cv p * (t - T1 p)))))"

text \<open>
  \<^verbatim>\<open>calculate_heat_absorbed\<close>; the isothermal one reads \<^verbatim>\<open>work_done_on\<close>, which
  \<^verbatim>\<open>calculate_work_done_by\<close> has just stored.
\<close>

definition calculate_heat_absorbed :: "process \<Rightarrow> real \<Rightarrow> real list \<Rightarrow> error + real" where
  "calculate_heat_absorbed p won temp =
     (case kind p of
        Isothermal \<Rightarrow> Inr (- won)
      | Isobaric \<Rightarrow> bind (last_py temp) (\<lambda>t. Inr (n p * Cp p * (t - T1 p)))
      | Isochoric \<Rightarrow> bind (last_py temp) (\<lambda>t. Inr (n p * Cv p * (t - T1 p)))
      | Adiabatic \<Rightarrow> Inr 0)"

definition generate_extra_data ::
  "process \<Rightarrow> real list \<Rightarrow> real list \<Rightarrow> real list \<Rightarrow> error + generated" where
  "generate_extra_data p vol pres temp =
     (let u = map (\<lambda>t. Cv p * n p * t) temp;
          s = map2 (\<lambda>v t. n p * ln v + Cv p * ln t) vol temp;
          c = map (\<lambda>(q, v, t). q * v - n p * R * t) (zip pres (zip vol temp))
      in bind (calculate_work_done_by p vol temp) (\<lambda>wby.
         bind (calculate_heat_absorbed p (- wby) temp) (\<lambda>q.
         bind (last_py u) (\<lambda>u_end.
         bind (first_py u) (\<lambda>u_start.
           Inr (process.extend p
             \<lparr> volume = vol, pressure = pres, temperature = temp,
               internal_energy = u, entropy = s, ideal_gas_law_consistency = c,
               work_done_by = wby, work_done_on = - wby,
               heat_absorbed = q, heat_released = - q,
               first_law_consistency = - wby + q - u_end + u_start \<rparr>))))))"

text \<open>\<^verbatim>\<open>BaseProcess.generate_data_from_dV\<close>: the three variables held constant.\<close>

definition BaseProcess_generate_data_from_dV :: "process \<Rightarrow> real \<Rightarrow> nat \<Rightarrow> error + generated" where
  "BaseProcess_generate_data_from_dV p v2 steps =
     generate_extra_data p (ones_times (V1 p) steps) (ones_times (P1 p) steps) (ones_times (T1 p) steps)"

definition Isothermal_generate_data_from_dV :: "process \<Rightarrow> real \<Rightarrow> nat \<Rightarrow> error + generated" where
  "Isothermal_generate_data_from_dV p v2 steps =
     (let vol = linspace (V1 p) v2 steps;
          pres = map (\<lambda>v. n p * R * T1 p / v) vol;
          temp = ones_times (T1 p) (length vol)
      in generate_extra_data p vol pres temp)"

definition Isothermal_generate_data_from_dP :: "process \<Rightarrow> real \<Rightarrow> nat \<Rightarrow> error + generated" where
  "Isothermal_generate_data_from_dP p p2 steps =
     (let pres = linspace (P1 p) p2 steps;
          vol = map (\<lambda>q. n p * R * T1 p / q) pres;
          temp = ones_times (T1 p) (length pres)
      in generate_extra_data p vol pres temp)"

definition Isobaric_generate_data_from_dV :: "process \<Rightarrow> real \<Rightarrow> nat \<Rightarrow> error + generated" where
  "Isobaric_generate_data_from_dV p v2 steps =
     (let vol = linspace (V1 p) v2 steps;
          temp = map (\<lambda>v. P1 p * v / (n p * R)) vol;
          pres = ones_times (P1 p) (length vol)
      in generate_extra_data p vol pres temp)"

definition Isobaric_generate_data_from_dT :: "process \<Rightarrow> real \<Rightarrow> nat \<Rightarrow> error + generated" where
  "Isobaric_generate_data_from_dT p t2 steps =
     (let temp = linspace (T1 p) t2 steps;
          vol = map (\<lambda>t. n p * R * t / P1 p) temp;
          pres = ones_times (P1 p) (length temp)
      in generate_extra_data p vol pres temp)"

definition Isochoric_generate_data_from_dT :: "process \<Rightarrow> real \<Rightarrow> nat \<Rightarrow> error + generated" where
  "Isochoric_generate_data_from_dT p t2 steps =
     (let temp = linspace (T1 p) t2 steps;
          pres = map (\<lambda>t. n p * R * t / V1 p) temp;
          vol = ones_times (V1 p) (length temp)
      in generate_extra_data p vol pres temp)"

definition Isochoric_generate_data_from_dP :: "process \<Rightarrow> real \<Rightarrow> nat \<Rightarrow> error + generated" where
  "Isochoric_generate_data_from_dP p p2 steps =
     (let pres = linspace (P1 p) p2 steps;
          temp = map (\<lambda>q. q * V1 p / (n p * R)) pres;
          vol = ones_times (V1 p) (length pres)
      in generate_extra_data p vol pres temp)"

text \<open>
  The adiabatic relations. The exponents are quotients of Python scalars and raise when their
  denominator is zero; the quotients under the powers divide by an array.
\<close>

definition P2_from_V2 :: "process \<Rightarrow> real \<Rightarrow> real" where
  "P2_from_V2 p v2 = P1 p * (V1 p / v2) powr gamma p"

definition T2_from_V2 :: "process \<Rightarrow> real \<Rightarrow> real" where
  "T2_from_V2 p v2 = T1 p * (V1 p / v2) powr (gamma p - 1)"

definition V2_from_P2 :: "process \<Rightarrow> real \<Rightarrow> real \<Rightarrow> real" where
  "V2_from_P2 p e p2 = V1 p * (P1 p / p2) powr e"

definition T2_from_P2 :: "process \<Rightarrow> real \<Rightarrow> real \<Rightarrow> real" where
  "T2_from_P2 p e p2 = T1 p * (p2 / P1 p) powr e"

definition P2_from_T2 :: "process \<Rightarrow> real \<Rightarrow> real \<Rightarrow> real" where
  "P2_from_T2 p e t2 = P1 p * (t2 / T1 p) powr e"

definition V2_from_T2 :: "process \<Rightarrow> real \<Rightarrow> real \<Rightarrow> real" where
  "V2_from_T2 p e t2 = V1 p * (T1 p / t2) powr e"

definition Adiabatic_generate_data_from_dV :: "process \<Rightarrow> real \<Rightarrow> nat \<Rightarrow> error + generated" where
  "Adiabatic_generate_data_from_dV p v2 steps =
     (let vol = linspace (V1 p) v2 steps;
          pres = map (P2_from_V2 p) vol;
          temp = map (T2_from_V2 p) vol
      in generate_extra_data p vol pres temp)"

definition Adiabatic_generate_data_from_dP :: "process \<Rightarrow> real \<Rightarrow> nat \<Rightarrow> error + generated" where
  "Adiabatic_generate_data_from_dP p p2 steps =
     (let pres = linspace (P1 p) p2 steps
      in bind (pydiv 1 (gamma p)) (\<lambda>ev.
         bind (pydiv (gamma p - 1) (gamma p)) (\<lambda>et.
           generate_extra_data p (map (V2_from_P2 p ev) pres) pres (map (T2_from_P2 p et) pres))))"

definition Adiabatic_generate_data_from_dT :: "process \<Rightarrow> real \<Rightarrow> nat \<Rightarrow> error + generated" where
  "Adiabatic_generate_data_from_dT p t2 steps =
     (let temp = linspace (T1 p) t2 steps
      in bind (pydiv 1 (gamma p - 1)) (\<lambda>ev.
         bind (pydiv (gamma p) (gamma p - 1)) (\<lambda>ep.
           generate_extra_data p (map (V2_from_T2 p ev) temp) (map (P2_from_T2 p ep) temp) temp)))"

text \<open>
  Method dispatch. A class that does not override a method inherits BaseProcess's:
  \<^verbatim>\<open>generate_data_from_dV\<close> holds the state constant, \<^verbatim>\<open>generate_data_from_dP\<close> and
  \<^verbatim>\<open>generate_data_from_dT\<close> call the object's own \<^verbatim>\<open>generate_data_from_dV(self.V1)\<close>.
\<close>

definition generate_data_from_dV :: "process \<Rightarrow> real \<Rightarrow> nat \<Rightarrow> error + generated" where
  "generate_data_from_dV p v2 steps =
     (case kind p of
        Isothermal \<Rightarrow> Isothermal_generate_data_from_dV p v2 steps
      | Isobaric \<Rightarrow> Isobaric_generate_data_from_dV p v2 steps
      | Isochoric \<Rightarrow> BaseProcess_generate_data_from_dV p v2 steps
      | Adiabatic \<Rightarrow> Adiabatic_generate_data_from_dV p v2 steps)"

definition generate_data_from_dP :: "process \<Rightarrow> real \<Rightarrow> nat \<Rightarrow> error + generated" where
  "generate_data_from_dP p p2 steps =
     (case kind p of
        Isothermal \<Rightarrow> Isothermal_generate_data_from_dP p p2 steps
      | Isobaric \<Rightarrow> generate_data_from_dV p (V1 p) steps
      | Isochoric \<Rightarrow> Isochoric_generate_data_from_dP p p2 steps
      | Adiabatic \<Rightarrow> Adiabatic_generate_data_from_dP p p2 steps)"

definition generate_data_from_dT :: "process \<Rightarrow> real \<Rightarrow> nat \<Rightarrow> error + generated" where
  "generate_data_from_dT p t2 steps =
     (case kind p of
        Isothermal \<Rightarrow> generate_data_from_dV p (V1 p) steps
      | Isobaric \<Rightarrow> Isobaric_generate_data_from_dT p t2 steps
      | Isochoric \<Rightarrow> Isochoric_generate_data_from_dT p t2 steps
      | Adiabatic \<Rightarrow> Adiabatic_generate_data_from_dT p t2 steps)"

text \<open>\<^verbatim>\<open>is_ideal_gas\<close> and \<^verbatim>\<open>is_first_law_satisfied\<close>.\<close>

definition is_ideal_gas :: "generated \<Rightarrow> bool" where
  "is_ideal_gas g = list_all (\<lambda>x. \<bar>x\<bar> < allowed_error) (ideal_gas_law_consistency g)"

definition is_first_law_satisfied :: "generated \<Rightarrow> bool" where
  "is_first_law_satisfied g = (\<bar>first_law_consistency g\<bar> < allowed_error)"

text \<open>
  \<^verbatim>\<open>b ** e\<close> on two Python floats: a zero base under a negative exponent raises, a negative
  base under a fractional exponent leaves the reals.
\<close>

definition pypow :: "real \<Rightarrow> real \<Rightarrow> error + real" where
  "pypow b e =
     (if 0 < b then Inr (b powr e)
      else if b = 0 then (if 0 < e then Inr 0 else if e = 0 then Inr 1 else Inl ZeroDivisionError)
      else if e = of_int \<lfloor>e\<rfloor> then Inr (b powi \<lfloor>e\<rfloor>)
      else Inl ComplexResult)"

subsection \<open>The IdealGas facade\<close>

record ideal_gas =
  gas_P :: "real list"
  gas_V :: "real list"
  gas_T :: "real list"
  gas_n :: real
  material :: substance
  gas_name :: string
  processes :: "generated list"

text \<open>
  \<^verbatim>\<open>IdealGas.__init__\<close>. The attributes \<^verbatim>\<open>M\<close>, \<^verbatim>\<open>Cv\<close>, \<^verbatim>\<open>Cp\<close>,
  \<^verbatim>\<open>gamma\<close> and \<^verbatim>\<open>formula\<close> of the facade are the fields of \<open>material\<close>.
\<close>

definition IdealGas_init ::
  "substances \<Rightarrow> real option \<Rightarrow> real option \<Rightarrow> real option \<Rightarrow> real option \<Rightarrow> string option \<Rightarrow>
   error + ideal_gas" where
  "IdealGas_init subs p v t n0 gas =
     bind (find_missing_values p v t n0) (\<lambda>(p', v', t', m).
     bind (set_internal_values subs gas) (\<lambda>(mat, nm).
       Inr \<lparr> gas_P = [p'], gas_V = [v'], gas_T = [t'], gas_n = m,
             material = mat, gas_name = nm, processes = [] \<rparr>))"

text \<open>The last four statements of each transition: the three histories and the list grow.\<close>

definition append_process :: "ideal_gas \<Rightarrow> generated \<Rightarrow> ideal_gas" where
  "append_process s g =
     s \<lparr> gas_P := gas_P s @ pressure g, gas_V := gas_V s @ volume g,
         gas_T := gas_T s @ temperature g, processes := processes s @ [g] \<rparr>"

text \<open>The process each transition constructs from the last state of the history.\<close>

definition process_from_last :: "ideal_gas \<Rightarrow> kind \<Rightarrow> error + process" where
  "process_from_last s k =
     bind (last_py (gas_P s)) (\<lambda>p. bind (last_py (gas_V s)) (\<lambda>v. bind (last_py (gas_T s)) (\<lambda>t.
       new_process k None (Some (gas_n s)) (Some p) (Some v) (Some t) False False
         (GasMaterial (material s)))))"

text \<open>
  \<^verbatim>\<open>IdealGas.isothermal\<close>. The object it constructs is an \<^verbatim>\<open>Adiabatic\<close>. With no
  target \<^verbatim>\<open>np.linspace\<close> subtracts from \<^verbatim>\<open>None\<close>; with both targets nothing is
  generated and \<^verbatim>\<open>None\<close> is appended to the histories.
\<close>

definition isothermal :: "ideal_gas \<Rightarrow> real option \<Rightarrow> real option \<Rightarrow> error + ideal_gas" where
  "isothermal s p2 v2 =
     bind (process_from_last s Adiabatic) (\<lambda>pr.
       if p2 = None then
         (case v2 of None \<Rightarrow> Inl TypeError
          | Some v \<Rightarrow> bind (generate_data_from_dV pr v K) (\<lambda>g. Inr (append_process s g)))
       else if v2 = None then
         bind (generate_data_from_dP pr (the p2) K) (\<lambda>g. Inr (append_process s g))
       else Inl NoTrajectory)"

definition isobaric :: "ideal_gas \<Rightarrow> real option \<Rightarrow> real option \<Rightarrow> error + ideal_gas" where
  "isobaric s v2 t2 =
     bind (process_from_last s Isobaric) (\<lambda>pr.
       if v2 = None then
         (case t2 of None \<Rightarrow> Inl TypeError
          | Some t \<Rightarrow> bind (generate_data_from_dT pr t K) (\<lambda>g. Inr (append_process s g)))
       else if t2 = None then
         bind (generate_data_from_dV pr (the v2) K) (\<lambda>g. Inr (append_process s g))
       else Inl NoTrajectory)"

definition isochoric :: "ideal_gas \<Rightarrow> real option \<Rightarrow> real option \<Rightarrow> error + ideal_gas" where
  "isochoric s p2 t2 =
     bind (process_from_last s Isochoric) (\<lambda>pr.
       if p2 = None then
         (case t2 of None \<Rightarrow> Inl TypeError
          | Some t \<Rightarrow> bind (generate_data_from_dT pr t K) (\<lambda>g. Inr (append_process s g)))
       else if t2 = None then
         bind (generate_data_from_dP pr (the p2) K) (\<lambda>g. Inr (append_process s g))
       else Inl NoTrajectory)"

definition adiabatic :: "ideal_gas \<Rightarrow> real option \<Rightarrow> real option \<Rightarrow> real option \<Rightarrow> error + ideal_gas" where
  "adiabatic s p2 v2 t2 =
     bind (process_from_last s Adiabatic) (\<lambda>pr.
       if p2 \<noteq> None then
         bind (generate_data_from_dP pr (the p2) K) (\<lambda>g. Inr (append_process s g))
       else if v2 \<noteq> None then
         bind (generate_data_from_dV pr (the v2) K) (\<lambda>g. Inr (append_process s g))
       else if t2 \<noteq> None then
         bind (generate_data_from_dT pr (the t2) K) (\<lambda>g. Inr (append_process s g))
       else Inl NoTrajectory)"

subsection \<open>Cycles\<close>

datatype cycle_kind = Carnot | Otto

text \<open>
  A cycle object when its constructor has returned. \<^verbatim>\<open>theoretical_efficiency\<close> is set by
  \<^verbatim>\<open>Carnot\<close> only. Fields that a process has under the same name carry the prefix
  \<open>cyc_\<close>.
\<close>

record cycle =
  cyc_kind :: cycle_kind
  cyc_V1 :: real
  cyc_P1 :: real
  cyc_T :: real
  cyc_n :: real
  compression_ratio :: real
  T_hot :: real
  T_cold :: real
  monatomic :: bool
  diatomic :: bool
  cyc_gamma :: real
  cyc_Cv :: real
  cyc_Cp :: real
  alpha :: real
  beta :: real
  theoretical_efficiency :: "real option"
  cyc_processes :: "generated list"
  cyc_work_done_by :: "real list"
  cyc_work_done_on :: "real list"
  cyc_heat_absorbed :: "real list"
  cyc_heat_released :: "real list"
  efficiency :: real
  cycle_is_first_law_satisfied :: bool
  cycle_is_ideal_gas :: bool

text \<open>
  The constants chosen in \<^verbatim>\<open>BaseCycle.__init__\<close>, as \<^verbatim>\<open>(gamma, Cv, Cp)\<close>. Neither
  \<^verbatim>\<open>Carnot\<close> nor \<^verbatim>\<open>Otto\<close> passes a gas, so without a flag the table's
  \<^verbatim>\<open>"Air"\<close> is used.
\<close>

definition BaseCycle_capacities :: "substances \<Rightarrow> bool \<Rightarrow> bool \<Rightarrow> error + (real \<times> real \<times> real)" where
  "BaseCycle_capacities subs mon dia =
     (if mon then Inr (5 / 3, 3 / 2 * R, 5 / 2 * R)
      else if dia then Inr (7 / 5, 5 / 2 * R, 7 / 2 * R)
      else bind (set_internal_values subs None) (\<lambda>(mat, nm).
        Inr (sub_gamma mat, sub_Cv mat, sub_Cp mat)))"

text \<open>
  \<^verbatim>\<open>BaseCycle._find_missing\<close>, returning \<^verbatim>\<open>(P1, V1, T, n)\<close>. \<^verbatim>\<open>T\<close> is
  \<^verbatim>\<open>T_hot\<close>, a required argument, so the assertion holds; a second missing value meets
  arithmetic on \<^verbatim>\<open>None\<close>.
\<close>

definition BaseCycle_find_missing ::
  "real option \<Rightarrow> real option \<Rightarrow> real \<Rightarrow> real option \<Rightarrow> error + (real \<times> real \<times> real \<times> real)" where
  "BaseCycle_find_missing p1 v1 t n0 =
     (if p1 = None then
        (case (n0, v1) of
           (Some m, Some v) \<Rightarrow> bind (pydiv (m * R * t) v) (\<lambda>p. Inr (p, v, t, m))
         | _ \<Rightarrow> Inl TypeError)
      else if v1 = None then
        (case n0 of
           Some m \<Rightarrow> bind (pydiv (m * R * t) (the p1)) (\<lambda>v. Inr (the p1, v, t, m))
         | None \<Rightarrow> Inl TypeError)
      else if n0 = None then
        bind (pydiv (the p1 * the v1) (t * R)) (\<lambda>m. Inr (the p1, the v1, t, m))
      else Inr (the p1, the v1, t, the n0))"

text \<open>
  \<^verbatim>\<open>Carnot._calculate_alpha_beta\<close>, returning \<^verbatim>\<open>(alpha, beta)\<close>. The first assertion
  tests the truth value of \<^verbatim>\<open>alpha\<close>, which for a float is \<^verbatim>\<open>alpha != 0\<close>. Its
  message carries the minimum compression (printed with two decimals; the model keeps the
  number).
\<close>

definition Carnot_calculate_alpha_beta :: "real \<Rightarrow> real \<Rightarrow> real \<Rightarrow> real \<Rightarrow> error + (real \<times> real)" where
  "Carnot_calculate_alpha_beta r th tc g =
     bind (pydiv tc th) (\<lambda>q.
     bind (pydiv 1 (g - 1)) (\<lambda>e.
     bind (pypow q e) (\<lambda>w.
       let a = r * w in
       if a = 0 then
         bind (pydiv tc th) (\<lambda>q'. bind (pydiv 1 (1 - g)) (\<lambda>e'. bind (pypow q' e') (\<lambda>m.
           Inl (InvalidCompressionRatioError (Some m)))))
       else
         bind (pydiv 1 r) (\<lambda>ir.
         bind (pydiv th tc) (\<lambda>q2.
         bind (pydiv 1 (g - 1)) (\<lambda>e2.
         bind (pypow q2 e2) (\<lambda>w2.
           let b = ir * w2 in
           if b * r > 1 then Inr (a, b) else Inl (InvalidCompressionRatioError None))))))))"

text \<open>\<^verbatim>\<open>Otto._calculate_alpha_beta\<close>.\<close>

definition Otto_calculate_alpha_beta :: "real \<Rightarrow> error + (real \<times> real)" where
  "Otto_calculate_alpha_beta r = bind (pydiv 1 r) (\<lambda>a. Inr (a, r))"

text \<open>
  \<^verbatim>\<open>Carnot.generate_processes\<close>. The three assertions at its end are the closure check; the
  one in the middle has the same kind of message and gets the same name.
\<close>

definition Carnot_generate_processes ::
  "real \<Rightarrow> real \<Rightarrow> real \<Rightarrow> real \<Rightarrow> real \<Rightarrow> real \<Rightarrow> real \<Rightarrow> real \<Rightarrow> bool \<Rightarrow> error + generated list" where
  "Carnot_generate_processes m p1 v1 th tc r a b dia =
     bind (Isothermal_init (Some m) (Some th) (Some v1) None False dia NoGas) (\<lambda>i1.
     bind (generate_data_from_dV i1 (a * v1) K) (\<lambda>isothermal_expansion.
     bind (last_py (volume isothermal_expansion)) (\<lambda>v2.
     bind (last_py (temperature isothermal_expansion)) (\<lambda>t2.
     bind (Adiabatic_init None (Some m) None (Some v2) (Some t2) False dia NoGas) (\<lambda>a1.
     bind (generate_data_from_dT a1 tc K) (\<lambda>adiabatic_expansion.
     bind (last_py (volume adiabatic_expansion)) (\<lambda>v3.
       if \<not> \<bar>v3 - v1 * r\<bar> < allowed_error then Inl ClosureViolationError
       else
     bind (Isothermal_init (Some m) (Some tc) (Some v3) None False dia NoGas) (\<lambda>i2.
     bind (generate_data_from_dV i2 (b * v3) K) (\<lambda>isothermal_compression.
     bind (last_py (volume isothermal_compression)) (\<lambda>v4.
     bind (last_py (temperature isothermal_compression)) (\<lambda>t4.
     bind (Adiabatic_init None (Some m) None (Some v4) (Some t4) False dia NoGas) (\<lambda>a2.
     bind (generate_data_from_dT a2 th K) (\<lambda>adiabatic_compression.
     bind (last_py (volume adiabatic_compression)) (\<lambda>vf.
     bind (last_py (temperature adiabatic_compression)) (\<lambda>tf.
     bind (last_py (pressure adiabatic_compression)) (\<lambda>pf.
       if \<not> \<bar>vf - v1\<bar> < allowed_error then Inl ClosureViolationError
       else if \<not> \<bar>tf - th\<bar> < allowed_error then Inl ClosureViolationError
       else if \<not> \<bar>pf - p1\<bar> < allowed_error then Inl ClosureViolationError
       else Inr [isothermal_expansion, adiabatic_expansion,
                 isothermal_compression, adiabatic_compression]))))))))))))))))"

text \<open>\<^verbatim>\<open>Otto.generate_processes\<close>.\<close>

definition Otto_generate_processes ::
  "real \<Rightarrow> real \<Rightarrow> real \<Rightarrow> real \<Rightarrow> real \<Rightarrow> real \<Rightarrow> bool \<Rightarrow> error + generated list" where
  "Otto_generate_processes m v1 th tc a b dia =
     bind (Adiabatic_init None (Some m) None (Some v1) (Some tc) False dia NoGas) (\<lambda>a1.
     bind (generate_data_from_dV a1 (a * v1) K) (\<lambda>adiabatic_compression.
     bind (last_py (volume adiabatic_compression)) (\<lambda>v2.
     bind (Isochoric_init (Some m) (Some v2) (Some tc) None False dia NoGas) (\<lambda>c1.
     bind (generate_data_from_dT c1 th K) (\<lambda>isochoric_heat_addition.
     bind (last_py (volume isochoric_heat_addition)) (\<lambda>v3.
     bind (Adiabatic_init None (Some m) None (Some v3) (Some th) False dia NoGas) (\<lambda>a2.
     bind (generate_data_from_dV a2 (b * v3) K) (\<lambda>adiabatic_expansion.
     bind (last_py (volume adiabatic_expansion)) (\<lambda>v4.
     bind (Isochoric_init (Some m) (Some v4) (Some th) None False dia NoGas) (\<lambda>c2.
     bind (generate_data_from_dT c2 tc K) (\<lambda>isochoric_heat_rejection.
       Inr [adiabatic_compression, isochoric_heat_addition,
            adiabatic_expansion, isochoric_heat_rejection])))))))))))"

text \<open>
  \<^verbatim>\<open>BaseCycle._calculate_efficiency\<close>, from the lists of heats and works. With no positive
  heat \<^verbatim>\<open>Q_in\<close> is zero: the division raises for Python numbers and yields inf or nan
  for numpy ones, with which the assertion after it fails. The model reports the division.
\<close>

definition calculate_efficiency :: "real list \<Rightarrow> real list \<Rightarrow> error + real" where
  "calculate_efficiency heats works =
     (let Q_in = sum_list (filter (\<lambda>q. q > 0) heats);
          Q_out = sum_list (filter (\<lambda>q. q < 0) heats);
          work_done = sum_list works
      in bind (pydiv Q_out Q_in) (\<lambda>x.
         bind (pydiv work_done Q_in) (\<lambda>y.
           let efficiency_from_heat = 1 - \<bar>x\<bar>;
               efficiency_from_work = \<bar>y\<bar>
           in if \<not> \<bar>efficiency_from_heat - efficiency_from_work\<bar> < allowed_error
              then Inl EfficiencyMismatchError
              else Inr ((efficiency_from_heat + efficiency_from_work) / 2))))"

text \<open>
  \<^verbatim>\<open>BaseCycle.run_cycle\<close> after \<^verbatim>\<open>generate_processes\<close>: the lists, the efficiency and
  the two flags, stored in the cycle.
\<close>

definition run_cycle :: "cycle \<Rightarrow> generated list \<Rightarrow> error + cycle" where
  "run_cycle c ps =
     (let wby = map work_done_by ps; won = map work_done_on ps;
          qa = map heat_absorbed ps; qr = map heat_released ps
      in bind (calculate_efficiency qa wby) (\<lambda>eff.
           Inr (c \<lparr> cyc_processes := ps,
                    cyc_work_done_by := wby, cyc_work_done_on := won,
                    cyc_heat_absorbed := qa, cyc_heat_released := qr,
                    efficiency := eff,
                    cycle_is_first_law_satisfied := list_all is_first_law_satisfied ps,
                    cycle_is_ideal_gas := list_all is_ideal_gas ps \<rparr>)))"

text \<open>The cycle object before \<^verbatim>\<open>run_cycle\<close> has filled it.\<close>

definition new_cycle ::
  "cycle_kind \<Rightarrow> real \<Rightarrow> real \<Rightarrow> real \<Rightarrow> real \<Rightarrow> real \<Rightarrow> real \<Rightarrow> real \<Rightarrow> bool \<Rightarrow> bool \<Rightarrow>
   real \<times> real \<times> real \<Rightarrow> real \<times> real \<Rightarrow> real option \<Rightarrow> cycle" where
  "new_cycle k p1 v1 t m r th tc mon dia caps ab te =
     \<lparr> cyc_kind = k, cyc_V1 = v1, cyc_P1 = p1, cyc_T = t, cyc_n = m,
       compression_ratio = r, T_hot = th, T_cold = tc, monatomic = mon, diatomic = dia,
       cyc_gamma = fst caps, cyc_Cv = fst (snd caps), cyc_Cp = snd (snd caps),
       alpha = fst ab, beta = snd ab, theoretical_efficiency = te,
       cyc_processes = [], cyc_work_done_by = [], cyc_work_done_on = [],
       cyc_heat_absorbed = [], cyc_heat_released = [], efficiency = 0,
       cycle_is_first_law_satisfied = False, cycle_is_ideal_gas = False \<rparr>"

text \<open>\<^verbatim>\<open>Carnot.__init__\<close>.\<close>

definition Carnot_init ::
  "substances \<Rightarrow> real \<Rightarrow> real \<Rightarrow> real \<Rightarrow> real option \<Rightarrow> real option \<Rightarrow> real option \<Rightarrow> bool \<Rightarrow> bool \<Rightarrow>
   error + cycle" where
  "Carnot_init subs r th tc p1 v1 n0 mon dia =
     bind (BaseCycle_capacities subs mon dia) (\<lambda>caps.
     bind (pydiv tc th) (\<lambda>x.
     bind (BaseCycle_find_missing p1 v1 th n0) (\<lambda>(p, v, t, m).
     bind (Carnot_calculate_alpha_beta r th tc (fst caps)) (\<lambda>ab.
     bind (Carnot_generate_processes m p v th tc r (fst ab) (snd ab) dia) (\<lambda>ps.
       run_cycle (new_cycle Carnot p v t m r th tc mon dia caps ab (Some (1 - x))) ps)))))"

text \<open>\<^verbatim>\<open>Otto.__init__\<close>.\<close>

definition Otto_init ::
  "substances \<Rightarrow> real \<Rightarrow> real \<Rightarrow> real \<Rightarrow> real option \<Rightarrow> real option \<Rightarrow> real option \<Rightarrow> bool \<Rightarrow> bool \<Rightarrow>
   error + cycle" where
  "Otto_init subs r tc th p1 v1 n0 mon dia =
     bind (BaseCycle_capacities subs mon dia) (\<lambda>caps.
     bind (BaseCycle_find_missing p1 v1 th n0) (\<lambda>(p, v, t, m).
     bind (Otto_calculate_alpha_beta r) (\<lambda>ab.
     bind (Otto_generate_processes m v th tc (fst ab) (snd ab) dia) (\<lambda>ps.
       run_cycle (new_cycle Otto p v t m r th tc mon dia caps ab None) ps))))"

section \<open>Properties\<close>

subsection \<open>Auxiliary facts\<close>

lemma defined_count_simps [simp]:
  "defined_count [] = 0"
  "defined_count (Some x # xs) = Suc (defined_count xs)"
  "defined_count (None # xs) = defined_count xs"
  by (simp_all add: defined_count_def)

lemma none_count_simps [simp]:
  "none_count [] = 0"
  "none_count (Some x # xs) = none_count xs"
  "none_count (None # xs) = Suc (none_count xs)"
  by (simp_all add: none_count_def)

lemma none_count_defined_count: "none_count xs + defined_count xs = length xs"
  by (induction xs) (auto simp: none_count_def defined_count_def)

subsection \<open>State completion\<close>

text \<open>
  Claim C2, as the program has it. With fewer than three of the four values supplied both
  operations fail with UnderspecifiedStateError. \<^verbatim>\<open>BaseProcess._find_missing\<close> has no
  consistency check: given all four values it keeps them as they are, whatever
  \<open>P V - n R T\<close> is.
\<close>

theorem state_completion_underspecified_and_unchecked:
  "(defined_count [p1, v1, t1, n0] < 3 \<longrightarrow> find_missing n0 p1 v1 t1 = Inl UnderspecifiedStateError)
   \<and> (defined_count [p, v, t, m0] < 3 \<longrightarrow> find_missing_values p v t m0 = Inl UnderspecifiedStateError)
   \<and> find_missing (Some a) (Some b) (Some c) (Some d) = Inr (a, b, c, d)"
proof (intro conjI impI)
  assume "defined_count [p1, v1, t1, n0] < 3"
  then show "find_missing n0 p1 v1 t1 = Inl UnderspecifiedStateError"
    by (simp add: find_missing_def)
next
  assume "defined_count [p, v, t, m0] < 3"
  moreover have "none_count [p, v, t, m0] + defined_count [p, v, t, m0] = 4"
    using none_count_defined_count [of "[p, v, t, m0]"] by simp
  ultimately have "none_count [p, v, t, m0] \<noteq> 1" by linarith
  then show "find_missing_values p v t m0 = Inl UnderspecifiedStateError"
    by (simp add: find_missing_values_def)
next
  show "find_missing (Some a) (Some b) (Some c) (Some d) = Inr (a, b, c, d)"
    by (simp add: find_missing_def)
qed

theorem state_completion_witness:
  "defined_count [Some 1, None, None, Some (1::real)] < 3
   \<and> find_missing (Some 1) (Some 1) None None = Inl UnderspecifiedStateError
   \<and> find_missing_values (Some 1) None None (Some 1) = Inl UnderspecifiedStateError
   \<and> find_missing (Some 2) (Some 3) (Some 4) (Some 5) = Inr (2, 3, 4, 5)"
  using state_completion_underspecified_and_unchecked
    [of "Some 1" None None "Some 1" "Some 1" None None "Some 1" 2 3 4 5]
  by simp

text \<open>
  The claim as stated fails: a process state with \<open>n = P1 = V1 = T1 = 1\<close> has
  \<open>P V - n R T = 1 - R\<close>, and \<^verbatim>\<open>_find_missing\<close> accepts it.
\<close>

theorem find_missing_accepts_inconsistent_state:
  "find_missing (Some 1) (Some 1) (Some 1) (Some 1) = Inr (1, 1, 1, 1)
   \<and> \<not> \<bar>1 * 1 - 1 * R * 1\<bar> < 1 / 10 ^ 10"
  by (simp add: find_missing_def R_def)

text \<open>
  In \<^verbatim>\<open>IdealGas.find_missing_values\<close> the first assertion demands exactly one missing
  value, so the branch that compares \<open>P V\<close> with \<open>n R T\<close> is never reached: four values,
  consistent or not, are refused.
\<close>

lemma find_missing_values_four_supplied:
  "find_missing_values (Some p) (Some v) (Some t) (Some m) = Inl UnderspecifiedStateError"
  by (simp add: find_missing_values_def)

subsection \<open>The gas identity of a process\<close>

text \<open>
  Claim C5 at \<^verbatim>\<open>Isothermal(n=1, T1=300, V1=1, gas="Air")\<close>: the constructor leaves
  \<^verbatim>\<open>M\<close> at \<^verbatim>\<open>None\<close> and takes the monatomic constants, as it does for every gas
  identity, since no constructor reads its \<^verbatim>\<open>gas\<close>.
\<close>

theorem process_constructor_ignores_gas:
  "Isothermal_init (Some 1) (Some 300) (Some 1) None False False (GasName ''Air'')
     = Inr \<lparr> kind = Isothermal, n = 1, P1 = 300 * R, V1 = 1, T1 = 300,
             Cv = 3 / 2 * R, Cp = 5 / 2 * R, gamma = 5 / 3, diameter = 3 / 10 ^ 10, M = None \<rparr>
   \<and> new_process k g0 n0 p1 v1 t1 False False gas = new_process k g0 n0 p1 v1 t1 False False NoGas"
  by (simp add: Isothermal_init_def new_process_def BaseProcess_capacities_def find_missing_def
      pydiv_def R_def)

subsection \<open>Arrays and derived quantities\<close>

lemma bind_InrE:
  assumes "bind m f = Inr y"
  obtains x where "m = Inr x" "f x = Inr y"
  using assms by (cases m) auto

lemma length_linspace [simp]: "length (linspace a b k) = k"
  by (simp add: linspace_def)

lemma linspace_eq_Nil [simp]: "linspace a b k = [] \<longleftrightarrow> k = 0"
  by (simp add: linspace_def)

lemma last_linspace: "last (linspace a b k) = (if k = 1 then a else if k = 0 then last [] else b)"
  by (simp add: linspace_def)

lemma hd_linspace: "0 < k \<Longrightarrow> hd (linspace a b k) = a"
  by (cases "k = 1") (simp_all add: linspace_def hd_append hd_map upt_conv_Cons)

lemma generate_extra_data_Inr:
  assumes "vol \<noteq> []" "temp \<noteq> []"
  shows "generate_extra_data p vol pres temp =
    Inr (process.extend p
      \<lparr> volume = vol, pressure = pres, temperature = temp,
        internal_energy = map (\<lambda>t. Cv p * n p * t) temp,
        entropy = map2 (\<lambda>v t. n p * ln v + Cv p * ln t) vol temp,
        ideal_gas_law_consistency = map (\<lambda>(q, v, t). q * v - n p * R * t) (zip pres (zip vol temp)),
        work_done_by = (case kind p of
            Isothermal \<Rightarrow> R * n p * T1 p * ln (last vol / V1 p)
          | Isobaric \<Rightarrow> P1 p * (last vol - V1 p)
          | Isochoric \<Rightarrow> 0
          | Adiabatic \<Rightarrow> - (n p * Cv p * (last temp - T1 p))),
        work_done_on = - (case kind p of
            Isothermal \<Rightarrow> R * n p * T1 p * ln (last vol / V1 p)
          | Isobaric \<Rightarrow> P1 p * (last vol - V1 p)
          | Isochoric \<Rightarrow> 0
          | Adiabatic \<Rightarrow> - (n p * Cv p * (last temp - T1 p))),
        heat_absorbed = (case kind p of
            Isothermal \<Rightarrow> R * n p * T1 p * ln (last vol / V1 p)
          | Isobaric \<Rightarrow> n p * Cp p * (last temp - T1 p)
          | Isochoric \<Rightarrow> n p * Cv p * (last temp - T1 p)
          | Adiabatic \<Rightarrow> 0),
        heat_released = - (case kind p of
            Isothermal \<Rightarrow> R * n p * T1 p * ln (last vol / V1 p)
          | Isobaric \<Rightarrow> n p * Cp p * (last temp - T1 p)
          | Isochoric \<Rightarrow> n p * Cv p * (last temp - T1 p)
          | Adiabatic \<Rightarrow> 0),
        first_law_consistency = (case kind p of
            Isothermal \<Rightarrow> - (Cv p * n p * last temp) + Cv p * n p * hd temp
          | Isobaric \<Rightarrow> - (P1 p * (last vol - V1 p)) + n p * Cp p * (last temp - T1 p)
               - Cv p * n p * last temp + Cv p * n p * hd temp
          | Isochoric \<Rightarrow> n p * Cv p * (last temp - T1 p) - Cv p * n p * last temp + Cv p * n p * hd temp
          | Adiabatic \<Rightarrow> n p * Cv p * (last temp - T1 p) - Cv p * n p * last temp + Cv p * n p * hd temp) \<rparr>)"
  using assms
  by (cases "kind p")
     (simp_all add: generate_extra_data_def calculate_work_done_by_def calculate_heat_absorbed_def
        last_py_def first_py_def Let_def last_map hd_map)


lemma generate_extra_data_fields:
  assumes "generate_extra_data p vol pres temp = Inr g"
  shows "volume g = vol" "pressure g = pres" "temperature g = temp"
    "ideal_gas_law_consistency g = map (\<lambda>(q, v, t). q * v - n p * R * t) (zip pres (zip vol temp))"
    "entropy g = map2 (\<lambda>v t. n p * ln v + Cv p * ln t) vol temp"
    "internal_energy g = map (\<lambda>t. Cv p * n p * t) temp"
    "n g = n p" "P1 g = P1 p" "V1 g = V1 p" "T1 g = T1 p" "kind g = kind p"
    "Cv g = Cv p" "Cp g = Cp p" "gamma g = gamma p" "M g = M p"
    "work_done_on g = - work_done_by g" "heat_released g = - heat_absorbed g"
  using assms
  by (auto simp: generate_extra_data_def Let_def process.defs
      elim!: bind_InrE)

lemma generate_extra_data_returns:
  assumes "vol \<noteq> []" "temp \<noteq> []"
  shows "\<exists>g. generate_extra_data p vol pres temp = Inr g"
  using generate_extra_data_Inr [OF assms] by blast

lemma R_pos: "0 < R" by (simp add: R_def)

subsection \<open>Trajectories from a start state given by four values\<close>

text \<open>
  Two runs from the unchecked state \<open>n = P1 = V1 = T1 = 1\<close>. The adiabatic trajectory to
  \<open>V2 = 2\<close> has the residual \<open>1 - R\<close> at index 0, so \<^verbatim>\<open>is_ideal_gas\<close> is false of it. The
  isobaric trajectory to \<open>V2 = 2\<close> has the first-law residual \<open>5/2 - 5/2 R\<close>: its heat is
  counted from \<open>T1\<close>, its internal energy from \<open>temperature[0] = P1 V1 / (n R)\<close>.
\<close>

lemma not_list_all_hd: "xs \<noteq> [] \<Longrightarrow> \<not> P (hd xs) \<Longrightarrow> \<not> list_all P xs"
  by (cases xs) simp_all

lemma residual_map:
  "map (\<lambda>(q, v, t). q * v - c * t) (zip (map f xs) (zip xs (map h xs)))
     = map (\<lambda>x. f x * x - c * h x) xs"
  by (induction xs) auto

lemma K_pos: "0 < K" by (simp add: K_def)

lemma adiabatic_from_inconsistent_state_not_ideal:
  "map_sum id is_ideal_gas
     (bind (Adiabatic_init None (Some 1) (Some 1) (Some 1) (Some 1) False False NoGas)
        (\<lambda>p. generate_data_from_dV p 2 K)) = Inr False"
proof -
  define p where "p = \<lparr> kind = Adiabatic, n = 1, P1 = 1, V1 = 1, T1 = 1, Cv = 3 / 2 * R,
    Cp = 5 / 2 * R, gamma = 5 / 3, diameter = 3 / 10 ^ 10, M = None \<rparr>"
  define xs where "xs = linspace 1 2 K"
  have init: "Adiabatic_init None (Some 1) (Some 1) (Some 1) (Some 1) False False NoGas = Inr p"
    by (simp add: Adiabatic_init_def new_process_def BaseProcess_capacities_def find_missing_def p_def)
  have xs: "xs \<noteq> []" "hd xs = 1" by (simp_all add: xs_def K_pos hd_linspace)
  have gen: "generate_data_from_dV p 2 K
     = generate_extra_data p xs (map (P2_from_V2 p) xs) (map (T2_from_V2 p) xs)"
    by (simp add: generate_data_from_dV_def Adiabatic_generate_data_from_dV_def Let_def p_def xs_def)
  obtain g where g: "generate_extra_data p xs (map (P2_from_V2 p) xs) (map (T2_from_V2 p) xs) = Inr g"
    using generate_extra_data_returns [of xs "map (T2_from_V2 p) xs"] xs(1) by auto
  have c: "ideal_gas_law_consistency g = map (\<lambda>v. P2_from_V2 p v * v - n p * R * T2_from_V2 p v) xs"
    unfolding generate_extra_data_fields(4) [OF g] by (rule residual_map)
  have "hd (ideal_gas_law_consistency g) = 1 - R"
    using xs by (simp add: c hd_map P2_from_V2_def T2_from_V2_def p_def)
  moreover have "\<not> \<bar>1 - R\<bar> < allowed_error" by (simp add: R_def allowed_error_def)
  moreover have "ideal_gas_law_consistency g \<noteq> []" using xs(1) by (simp add: c)
  ultimately have "\<not> is_ideal_gas g"
    unfolding is_ideal_gas_def by (intro not_list_all_hd) simp_all
  then show ?thesis by (simp add: init gen g)
qed

lemma first_law_value:
  assumes "vol \<noteq> []" "temp \<noteq> []"
  shows "\<exists>g. generate_extra_data p vol pres temp = Inr g \<and>
    first_law_consistency g = (case kind p of
            Isothermal \<Rightarrow> - (Cv p * n p * last temp) + Cv p * n p * hd temp
          | Isobaric \<Rightarrow> - (P1 p * (last vol - V1 p)) + n p * Cp p * (last temp - T1 p)
               - Cv p * n p * last temp + Cv p * n p * hd temp
          | Isochoric \<Rightarrow> n p * Cv p * (last temp - T1 p) - Cv p * n p * last temp + Cv p * n p * hd temp
          | Adiabatic \<Rightarrow> n p * Cv p * (last temp - T1 p) - Cv p * n p * last temp + Cv p * n p * hd temp)"
  by (simp add: generate_extra_data_Inr [OF assms] process.defs)

lemma hd_last_ones_times [simp]:
  "0 < k \<Longrightarrow> hd (ones_times c k) = c" "0 < k \<Longrightarrow> last (ones_times c k) = c"
  "ones_times c k = [] \<longleftrightarrow> k = 0" "length (ones_times c k) = k"
  by (simp_all add: ones_times_def hd_replicate)

declare hd_linspace [simp]

lemma hd_map_linspace [simp]: "0 < k \<Longrightarrow> hd (map f (linspace a b k)) = f a"
  by (simp add: hd_map hd_linspace)

lemma last_map_linspace: "0 < k \<Longrightarrow> last (map f (linspace a b k)) = f (last (linspace a b k))"
  by (simp add: last_map)

lemma last_linspace_K [simp]: "last (linspace a b K) = b"
  by (simp add: last_linspace K_def)

lemma isobaric_from_inconsistent_state_breaks_first_law:
  "map_sum id is_first_law_satisfied
     (bind (Isobaric_init (Some 1) (Some 1) (Some 1) (Some 1) False False NoGas)
        (\<lambda>p. generate_data_from_dV p 2 K)) = Inr False"
proof -
  define p where "p = \<lparr> kind = Isobaric, n = 1, P1 = 1, V1 = 1, T1 = 1, Cv = 3 / 2 * R,
    Cp = 5 / 2 * R, gamma = 5 / 3, diameter = 3 / 10 ^ 10, M = None \<rparr>"
  define xs where "xs = linspace 1 2 K"
  have init: "Isobaric_init (Some 1) (Some 1) (Some 1) (Some 1) False False NoGas = Inr p"
    by (simp add: Isobaric_init_def new_process_def BaseProcess_capacities_def find_missing_def p_def)
  have xs: "xs \<noteq> []" "hd xs = 1" "last xs = 2" by (simp_all add: xs_def K_pos)
  have gen: "generate_data_from_dV p 2 K
     = generate_extra_data p xs (ones_times 1 (length xs)) (map (\<lambda>v. v / R) xs)"
    by (simp add: generate_data_from_dV_def Isobaric_generate_data_from_dV_def Let_def p_def xs_def)
  obtain g where g: "generate_extra_data p xs (ones_times 1 (length xs)) (map (\<lambda>v. v / R) xs) = Inr g"
    and f: "first_law_consistency g = - (P1 p * (last xs - V1 p))
       + n p * Cp p * (last (map (\<lambda>v. v / R) xs) - T1 p)
       - Cv p * n p * last (map (\<lambda>v. v / R) xs) + Cv p * n p * hd (map (\<lambda>v. v / R) xs)"
    using first_law_value [of xs "map (\<lambda>v. v / R) xs" p "ones_times 1 (length xs)"] xs(1)
    by (auto simp: p_def)
  have "first_law_consistency g = 5 / 2 - 5 / 2 * R"
    using xs R_pos by (simp add: f last_map hd_map p_def field_simps)
  then have "\<not> is_first_law_satisfied g"
    by (simp add: is_first_law_satisfied_def allowed_error_def R_def)
  then show ?thesis by (simp add: init gen g)
qed

subsection \<open>The end of an adiabatic volume sweep\<close>

lemma last_linspace_ge2 [simp]: "2 \<le> k \<Longrightarrow> last (linspace a b k) = b"
  by (simp add: last_linspace)

lemma Adiabatic_dV_end:
  assumes "kind p = Adiabatic" "2 \<le> steps"
  shows "\<exists>g. generate_data_from_dV p v2 steps = Inr g
     \<and> last (volume g) = v2 \<and> last (pressure g) = P2_from_V2 p v2
     \<and> last (temperature g) = T2_from_V2 p v2"
proof -
  let ?xs = "linspace (V1 p) v2 steps"
  have ne: "?xs \<noteq> []" using assms(2) by simp
  then obtain g where g: "generate_extra_data p ?xs (map (P2_from_V2 p) ?xs) (map (T2_from_V2 p) ?xs) = Inr g"
    using generate_extra_data_returns [of ?xs "map (T2_from_V2 p) ?xs"] by auto
  have "generate_data_from_dV p v2 steps = Inr g"
    using assms(1) g by (simp add: generate_data_from_dV_def Adiabatic_generate_data_from_dV_def Let_def)
  moreover have "last (volume g) = v2" "last (pressure g) = P2_from_V2 p v2"
    "last (temperature g) = T2_from_V2 p v2"
    using ne assms(2) by (simp_all add: generate_extra_data_fields(1-3) [OF g] last_map)
  ultimately show ?thesis by blast
qed

subsection \<open>Entropy\<close>

lemma eighth_powr: "(1 / 8 :: real) powr (2 / 3) = 1 / 4"
proof -
  have a: "(1 / 2 :: real) powr 3 = 1 / 8" by (simp add: power3_eq_cube)
  have "(1 / 8 :: real) powr (2 / 3) = ((1 / 2) powr 3) powr (2 / 3)" by (simp only: a)
  also have "\<dots> = (1 / 2) powr (3 * (2 / 3))" by (rule powr_powr)
  also have "\<dots> = (1 / 2) powr 2" by simp
  also have "\<dots> = 1 / 4" by (simp add: power2_eq_square)
  finally show ?thesis .
qed

lemma entropy_map:
  "map2 (\<lambda>v t. a * ln v + c * ln t) xs (map h xs) = map (\<lambda>v. a * ln v + c * ln (h v)) xs"
  by (induction xs) auto

text \<open>
  Claim C10. Whatever is generated, the entropy stored is \<open>n ln V[i] + Cv ln T[i]\<close> at each
  index. For the monatomic \<^verbatim>\<open>Adiabatic(n=1, V1=1, T1=300)\<close> driven to \<open>V2 = 8\<close> the last
  entropy differs from the first, by \<open>(3 - 3 R) ln 2\<close>, while \<^verbatim>\<open>heat_absorbed\<close> is 0.
\<close>

theorem entropy_pointwise_and_not_constant:
  "(generate_extra_data q vol pres temp = Inr h \<longrightarrow>
      entropy h = map2 (\<lambda>v t. n q * ln v + Cv q * ln t) vol temp)
   \<and> (\<exists>p g. Adiabatic_init None (Some 1) None (Some 1) (Some 300) True False NoGas = Inr p
        \<and> generate_data_from_dV p 8 K = Inr g
        \<and> hd (volume g) = 1 \<and> last (volume g) = 8
        \<and> last (entropy g) \<noteq> hd (entropy g)
        \<and> heat_absorbed g = 0)"
proof (intro conjI impI)
  assume "generate_extra_data q vol pres temp = Inr h"
  then show "entropy h = map2 (\<lambda>v t. n q * ln v + Cv q * ln t) vol temp"
    by (rule generate_extra_data_fields(5))
next
  define p where "p = \<lparr> kind = Adiabatic, n = 1, P1 = 300 * R, V1 = 1, T1 = 300, Cv = 3 / 2 * R,
    Cp = 5 / 2 * R, gamma = 5 / 3, diameter = 3 / 10 ^ 10, M = None \<rparr>"
  define xs where "xs = linspace 1 8 K"
  have init: "Adiabatic_init None (Some 1) None (Some 1) (Some 300) True False NoGas = Inr p"
    by (simp add: Adiabatic_init_def new_process_def BaseProcess_capacities_def find_missing_def
        pydiv_def p_def)
  have xs: "xs \<noteq> []" "hd xs = 1" "last xs = 8" by (simp_all add: xs_def K_pos)
  have gen: "generate_data_from_dV p 8 K
     = generate_extra_data p xs (map (P2_from_V2 p) xs) (map (T2_from_V2 p) xs)"
    by (simp add: generate_data_from_dV_def Adiabatic_generate_data_from_dV_def Let_def p_def xs_def)
  have full: "generate_extra_data p xs (map (P2_from_V2 p) xs) (map (T2_from_V2 p) xs) = Inr g
    \<Longrightarrow> heat_absorbed g = 0" for g
    using generate_extra_data_Inr [of xs "map (T2_from_V2 p) xs" p "map (P2_from_V2 p) xs"] xs(1)
    by (auto simp: process.defs p_def)
  obtain g where g: "generate_extra_data p xs (map (P2_from_V2 p) xs) (map (T2_from_V2 p) xs) = Inr g"
    using generate_extra_data_returns [of xs "map (T2_from_V2 p) xs"] xs(1) by auto
  have s: "entropy g = map (\<lambda>v. n p * ln v + Cv p * ln (T2_from_V2 p v)) xs"
    unfolding generate_extra_data_fields(5) [OF g] by (rule entropy_map)
  have s0: "hd (entropy g) = 3 / 2 * R * ln 300"
    using xs by (simp add: s hd_map T2_from_V2_def p_def)
  have "last (entropy g) = ln 8 + 3 / 2 * R * ln (300 * (1 / 8) powr (2 / 3))"
    using xs by (simp add: s last_map T2_from_V2_def p_def)
  then have s1: "last (entropy g) = ln 8 + 3 / 2 * R * ln 75"
    by (simp add: eighth_powr)
  have l8: "ln (8 :: real) = 3 * ln 2"
    using ln_realpow [of 2 3] by simp
  have l300: "ln (300 :: real) = ln 75 + 2 * ln 2"
    using ln_mult [of 75 4] ln_realpow [of 2 2] by simp
  have "last (entropy g) - hd (entropy g) = (3 - 3 * R) * ln 2"
    by (simp add: s0 s1 l8 l300 algebra_simps)
  moreover have "(3 - 3 * R) * ln (2 :: real) \<noteq> 0" by (simp add: R_def)
  ultimately have "last (entropy g) \<noteq> hd (entropy g)" by auto
  moreover have "hd (volume g) = 1" "last (volume g) = 8"
    using xs by (simp_all add: generate_extra_data_fields(1) [OF g])
  ultimately show "\<exists>p g. Adiabatic_init None (Some 1) None (Some 1) (Some 300) True False NoGas = Inr p
        \<and> generate_data_from_dV p 8 K = Inr g
        \<and> hd (volume g) = 1 \<and> last (volume g) = 8
        \<and> last (entropy g) \<noteq> hd (entropy g)
        \<and> heat_absorbed g = 0"
    using init gen g full [OF g] by auto
qed

theorem entropy_pointwise_witness:
  "(\<exists>h. generate_extra_data \<lparr> kind = Isochoric, n = 1, P1 = R, V1 = 1, T1 = 1, Cv = 3 / 2 * R,
          Cp = 5 / 2 * R, gamma = 5 / 3, diameter = 3 / 10 ^ 10, M = None \<rparr> [1] [R] [1] = Inr h
      \<and> entropy h = [0])
   \<and> (\<exists>p g. Adiabatic_init None (Some 1) None (Some 1) (Some 300) True False NoGas = Inr p
        \<and> generate_data_from_dV p 8 K = Inr g
        \<and> hd (volume g) = 1 \<and> last (volume g) = 8
        \<and> last (entropy g) \<noteq> hd (entropy g)
        \<and> heat_absorbed g = 0)"
proof -
  obtain h where h: "generate_extra_data \<lparr> kind = Isochoric, n = 1, P1 = R, V1 = 1, T1 = 1,
      Cv = 3 / 2 * R, Cp = 5 / 2 * R, gamma = 5 / 3, diameter = 3 / 10 ^ 10, M = None \<rparr> [1] [R] [1] = Inr h"
    using generate_extra_data_returns [of "[1]" "[1]"] by auto
  from entropy_pointwise_and_not_constant
    [of "\<lparr> kind = Isochoric, n = 1, P1 = R, V1 = 1, T1 = 1,
      Cv = 3 / 2 * R, Cp = 5 / 2 * R, gamma = 5 / 3, diameter = 3 / 10 ^ 10, M = None \<rparr>" "[1]" "[R]" "[1]" h]
    h show ?thesis by simp
qed

subsection \<open>The isothermal transition of the facade\<close>

lemma Adiabatic_dV_lengths:
  assumes "kind p = Adiabatic" "generate_data_from_dV p v2 steps = Inr g"
  shows "length (volume g) = steps" "length (pressure g) = steps" "length (temperature g) = steps"
  using assms
  by (simp_all add: generate_data_from_dV_def Adiabatic_generate_data_from_dV_def Let_def
      generate_extra_data_fields(1-3))

text \<open>
  Claim C1 at \<^verbatim>\<open>IdealGas(V=1, T=300, n=1).isothermal(V2=8)\<close>, for any table whose only
  entry is \<^verbatim>\<open>"Air"\<close>: the transition returns, the process it records is an
  \<^verbatim>\<open>Adiabatic\<close>, and the temperature history ends at 75, not at the 300 it started from.
\<close>

theorem isothermal_transition_builds_adiabatic:
  "\<exists>s s'. IdealGas_init [(''Air'', m)] None (Some 1) (Some 300) (Some 1) None = Inr s
     \<and> gas_T s = [300]
     \<and> isothermal s None (Some 8) = Inr s'
     \<and> map kind (processes s') = [Adiabatic]
     \<and> length (gas_T s') = 1 + K
     \<and> last (gas_T s') = 75"
proof -
  define s where "s = \<lparr> gas_P = [300 * R], gas_V = [1], gas_T = [300], gas_n = 1,
    material = m, gas_name = ''Air'', processes = [] \<rparr>"
  define p where "p = \<lparr> kind = Adiabatic, n = 1, P1 = 300 * R, V1 = 1, T1 = 300, Cv = 3 / 2 * R,
    Cp = 5 / 2 * R, gamma = 5 / 3, diameter = 3 / 10 ^ 10, M = None \<rparr>"
  have init: "IdealGas_init [(''Air'', m)] None (Some 1) (Some 300) (Some 1) None = Inr s"
    by (simp add: IdealGas_init_def find_missing_values_def set_internal_values_def pydiv_def s_def)
  have pr: "process_from_last s Adiabatic = Inr p"
    by (simp add: process_from_last_def last_py_def new_process_def BaseProcess_capacities_def
        find_missing_def s_def p_def)
  have k: "kind p = Adiabatic" by (simp add: p_def)
  obtain g where g: "generate_data_from_dV p 8 K = Inr g"
    and e: "last (temperature g) = T2_from_V2 p 8"
    using Adiabatic_dV_end [OF k, of K 8] by (auto simp: K_def)
  have len: "length (temperature g) = K" by (rule Adiabatic_dV_lengths(3) [OF k g])
  then have ne: "temperature g \<noteq> []" using K_pos by auto
  have kg: "kind g = Adiabatic"
    using g k by (simp add: generate_data_from_dV_def Adiabatic_generate_data_from_dV_def Let_def
        generate_extra_data_fields(11))
  have step: "isothermal s None (Some 8) = Inr (append_process s g)"
    by (simp add: isothermal_def pr g)
  have a: "last (gas_T (append_process s g)) = 75"
    using ne by (simp add: append_process_def e T2_from_V2_def p_def eighth_powr)
  have b: "length (gas_T (append_process s g)) = 1 + K"
    by (simp add: append_process_def len s_def)
  have c: "map kind (processes (append_process s g)) = [Adiabatic]"
    by (simp add: append_process_def s_def kg)
  have d: "gas_T s = [300]" by (simp add: s_def)
  show ?thesis
    by (rule exI [of _ s], rule exI [of _ "append_process s g"]) (simp only: init step a b c d)
qed

subsection \<open>The volume ratios of the Carnot cycle\<close>

lemma pypow_pos [simp]: "0 < b \<Longrightarrow> pypow b e = Inr (b powr e)"
  by (simp add: pypow_def)

lemma pydiv_nonzero [simp]: "y \<noteq> 0 \<Longrightarrow> pydiv x y = Inr (x / y)"
  by (simp add: pydiv_def)

lemma Carnot_alpha_beta_value:
  assumes "0 < th" "0 < tc" "g \<noteq> 1"
  shows "Carnot_calculate_alpha_beta r th tc g =
    (let a = r * (tc / th) powr (1 / (g - 1));
         b = 1 / r * (th / tc) powr (1 / (g - 1))
     in if a = 0 then Inl (InvalidCompressionRatioError (Some ((tc / th) powr (1 / (1 - g)))))
        else if b * r > 1 then Inr (a, b)
        else Inl (InvalidCompressionRatioError None))"
proof (cases "r = 0")
  case True
  with assms show ?thesis by (simp add: Carnot_calculate_alpha_beta_def Let_def)
next
  case False
  with assms show ?thesis by (simp add: Carnot_calculate_alpha_beta_def Let_def)
qed

text \<open>
  Claim C6 at \<^verbatim>\<open>Carnot(compression_ratio=-2, T_hot=500, T_cold=300, monatomic=True)\<close>:
  \<open>\<alpha> = -2 (3/5)^(3/2)\<close> is negative, and \<^verbatim>\<open>_calculate_alpha_beta\<close> returns \<open>\<alpha>\<close> and
  \<open>\<beta>\<close> instead of failing. At \<open>r = 2\<close>, \<open>T_hot = 300\<close>, \<open>T_cold = 500\<close>, where
  \<open>\<beta> r > 1\<close> is violated, the method fails and its error carries no ratio.
\<close>

theorem Carnot_negative_alpha_accepted:
  "Carnot_calculate_alpha_beta (- 2) 500 300 (5 / 3)
     = Inr (- 2 * (3 / 5) powr (3 / 2), 1 / (- 2) * (5 / 3) powr (3 / 2))
   \<and> \<not> 0 < - 2 * (3 / 5 :: real) powr (3 / 2)
   \<and> Carnot_calculate_alpha_beta 2 300 500 (5 / 3) = Inl (InvalidCompressionRatioError None)"
proof -
  have w: "1 < (5 / 3 :: real) powr (3 / 2)" by (rule gr_one_powr) simp_all
  have v: "(3 / 5 :: real) powr (3 / 2) \<le> 1" by (rule powr_le1) simp_all
  have "Carnot_calculate_alpha_beta (- 2) 500 300 (5 / 3)
     = Inr (- 2 * (3 / 5) powr (3 / 2), 1 / (- 2) * (5 / 3) powr (3 / 2))"
    using w by (simp add: Carnot_alpha_beta_value Let_def)
  moreover have "\<not> 0 < - 2 * (3 / 5 :: real) powr (3 / 2)"
    by (simp add: mult_le_0_iff)
  moreover have "Carnot_calculate_alpha_beta 2 300 500 (5 / 3) = Inl (InvalidCompressionRatioError None)"
    using v by (simp add: Carnot_alpha_beta_value Let_def)
  ultimately show ?thesis by simp
qed

subsection \<open>End points of the trajectories used in cycles\<close>

lemma generate_extra_data_energy:
  assumes "generate_extra_data p vol pres temp = Inr g" "vol \<noteq> []" "temp \<noteq> []"
  shows "work_done_by g = (case kind p of
            Isothermal \<Rightarrow> R * n p * T1 p * ln (last vol / V1 p)
          | Isobaric \<Rightarrow> P1 p * (last vol - V1 p)
          | Isochoric \<Rightarrow> 0
          | Adiabatic \<Rightarrow> - (n p * Cv p * (last temp - T1 p)))"
    "heat_absorbed g = (case kind p of
            Isothermal \<Rightarrow> R * n p * T1 p * ln (last vol / V1 p)
          | Isobaric \<Rightarrow> n p * Cp p * (last temp - T1 p)
          | Isochoric \<Rightarrow> n p * Cv p * (last temp - T1 p)
          | Adiabatic \<Rightarrow> 0)"
  using assms(1) generate_extra_data_Inr [OF assms(2,3), of p pres]
  by (auto simp: process.defs)

lemma Isothermal_dV_summary:
  assumes "kind p = Isothermal" "2 \<le> steps"
  obtains g where "generate_data_from_dV p v2 steps = Inr g"
    "last (volume g) = v2" "last (temperature g) = T1 p" "last (pressure g) = n p * R * T1 p / v2"
    "work_done_by g = R * n p * T1 p * ln (v2 / V1 p)"
    "heat_absorbed g = R * n p * T1 p * ln (v2 / V1 p)"
    "T1 g = T1 p" "V1 g = V1 p" "P1 g = P1 p" "n g = n p"
    "volume g \<noteq> []" "pressure g \<noteq> []" "temperature g \<noteq> []"
proof -
  let ?xs = "linspace (V1 p) v2 steps"
  let ?pr = "map (\<lambda>v. n p * R * T1 p / v) ?xs"
  let ?te = "ones_times (T1 p) (length ?xs)"
  have ne: "?xs \<noteq> []" "?te \<noteq> []" "0 < steps" using assms(2) by simp_all
  then obtain g where g: "generate_extra_data p ?xs ?pr ?te = Inr g"
    using generate_extra_data_returns [of ?xs ?te] by auto
  have "generate_data_from_dV p v2 steps = Inr g"
    using assms(1) g by (simp add: generate_data_from_dV_def Isothermal_generate_data_from_dV_def Let_def)
  moreover have "last (volume g) = v2" "last (temperature g) = T1 p"
    "last (pressure g) = n p * R * T1 p / v2"
    using ne assms(2) by (simp_all add: generate_extra_data_fields(1-3) [OF g] last_map)
  moreover have "work_done_by g = R * n p * T1 p * ln (v2 / V1 p)"
    "heat_absorbed g = R * n p * T1 p * ln (v2 / V1 p)"
    using generate_extra_data_energy [OF g ne(1,2)] assms by simp_all
  moreover have "T1 g = T1 p" "V1 g = V1 p" "P1 g = P1 p" "n g = n p"
    by (simp_all add: generate_extra_data_fields [OF g])
  moreover have "volume g \<noteq> []" "pressure g \<noteq> []" "temperature g \<noteq> []"
    using ne by (simp_all add: generate_extra_data_fields(1-3) [OF g])
  ultimately show ?thesis by (rule that)
qed

lemma Adiabatic_dV_summary:
  assumes "kind p = Adiabatic" "2 \<le> steps"
  obtains g where "generate_data_from_dV p v2 steps = Inr g"
    "last (volume g) = v2" "last (temperature g) = T2_from_V2 p v2"
    "last (pressure g) = P2_from_V2 p v2"
    "work_done_by g = - (n p * Cv p * (T2_from_V2 p v2 - T1 p))"
    "heat_absorbed g = 0"
    "T1 g = T1 p" "V1 g = V1 p" "P1 g = P1 p" "n g = n p"
    "volume g \<noteq> []" "pressure g \<noteq> []" "temperature g \<noteq> []"
proof -
  let ?xs = "linspace (V1 p) v2 steps"
  let ?pr = "map (P2_from_V2 p) ?xs"
  let ?te = "map (T2_from_V2 p) ?xs"
  have ne: "?xs \<noteq> []" "?te \<noteq> []" "0 < steps" using assms(2) by simp_all
  then obtain g where g: "generate_extra_data p ?xs ?pr ?te = Inr g"
    using generate_extra_data_returns [of ?xs ?te] by auto
  have "generate_data_from_dV p v2 steps = Inr g"
    using assms(1) g by (simp add: generate_data_from_dV_def Adiabatic_generate_data_from_dV_def Let_def)
  moreover have "last (volume g) = v2" "last (temperature g) = T2_from_V2 p v2"
    "last (pressure g) = P2_from_V2 p v2"
    using ne assms(2) by (simp_all add: generate_extra_data_fields(1-3) [OF g] last_map)
  moreover have "work_done_by g = - (n p * Cv p * (T2_from_V2 p v2 - T1 p))"
    "heat_absorbed g = 0"
    using generate_extra_data_energy [OF g ne(1,2)] assms by (simp_all add: last_map)
  moreover have "T1 g = T1 p" "V1 g = V1 p" "P1 g = P1 p" "n g = n p"
    by (simp_all add: generate_extra_data_fields [OF g])
  moreover have "volume g \<noteq> []" "pressure g \<noteq> []" "temperature g \<noteq> []"
    using ne by (simp_all add: generate_extra_data_fields(1-3) [OF g])
  ultimately show ?thesis by (rule that)
qed

lemma Adiabatic_dT_summary:
  assumes "kind p = Adiabatic" "2 \<le> steps" "gamma p \<noteq> 1"
  obtains g where "generate_data_from_dT p t2 steps = Inr g"
    "last (volume g) = V2_from_T2 p (1 / (gamma p - 1)) t2" "last (temperature g) = t2"
    "last (pressure g) = P2_from_T2 p (gamma p / (gamma p - 1)) t2"
    "work_done_by g = - (n p * Cv p * (t2 - T1 p))"
    "heat_absorbed g = 0"
    "T1 g = T1 p" "V1 g = V1 p" "P1 g = P1 p" "n g = n p"
    "volume g \<noteq> []" "pressure g \<noteq> []" "temperature g \<noteq> []"
proof -
  let ?xs = "linspace (T1 p) t2 steps"
  let ?vo = "map (V2_from_T2 p (1 / (gamma p - 1))) ?xs"
  let ?pr = "map (P2_from_T2 p (gamma p / (gamma p - 1))) ?xs"
  have ne: "?vo \<noteq> []" "?xs \<noteq> []" "0 < steps" using assms(2) by simp_all
  then obtain g where g: "generate_extra_data p ?vo ?pr ?xs = Inr g"
    using generate_extra_data_returns [of ?vo ?xs] by auto
  have "generate_data_from_dT p t2 steps = Inr g"
    using assms(1,3) g
    by (simp add: generate_data_from_dT_def Adiabatic_generate_data_from_dT_def Let_def)
  moreover have "last (volume g) = V2_from_T2 p (1 / (gamma p - 1)) t2" "last (temperature g) = t2"
    "last (pressure g) = P2_from_T2 p (gamma p / (gamma p - 1)) t2"
    using ne assms(2) by (simp_all add: generate_extra_data_fields(1-3) [OF g] last_map)
  moreover have "work_done_by g = - (n p * Cv p * (t2 - T1 p))"
    "heat_absorbed g = 0"
    using generate_extra_data_energy [OF g ne(1,2)] assms by simp_all
  moreover have "T1 g = T1 p" "V1 g = V1 p" "P1 g = P1 p" "n g = n p"
    by (simp_all add: generate_extra_data_fields [OF g])
  moreover have "volume g \<noteq> []" "pressure g \<noteq> []" "temperature g \<noteq> []"
    using ne by (simp_all add: generate_extra_data_fields(1-3) [OF g])
  ultimately show ?thesis by (rule that)
qed

lemma Isochoric_dT_summary:
  assumes "kind p = Isochoric" "2 \<le> steps"
  obtains g where "generate_data_from_dT p t2 steps = Inr g"
    "last (volume g) = V1 p" "last (temperature g) = t2"
    "last (pressure g) = n p * R * t2 / V1 p"
    "work_done_by g = 0"
    "heat_absorbed g = n p * Cv p * (t2 - T1 p)"
    "T1 g = T1 p" "V1 g = V1 p" "P1 g = P1 p" "n g = n p"
    "volume g \<noteq> []" "pressure g \<noteq> []" "temperature g \<noteq> []"
proof -
  let ?xs = "linspace (T1 p) t2 steps"
  let ?vo = "ones_times (V1 p) (length ?xs)"
  let ?pr = "map (\<lambda>t. n p * R * t / V1 p) ?xs"
  have ne: "?vo \<noteq> []" "?xs \<noteq> []" "0 < steps" using assms(2) by simp_all
  then obtain g where g: "generate_extra_data p ?vo ?pr ?xs = Inr g"
    using generate_extra_data_returns [of ?vo ?xs] by auto
  have "generate_data_from_dT p t2 steps = Inr g"
    using assms(1) g
    by (simp add: generate_data_from_dT_def Isochoric_generate_data_from_dT_def Let_def)
  moreover have "last (volume g) = V1 p" "last (temperature g) = t2"
    "last (pressure g) = n p * R * t2 / V1 p"
    using ne assms(2) by (simp_all add: generate_extra_data_fields(1-3) [OF g] last_map)
  moreover have "work_done_by g = 0"
    "heat_absorbed g = n p * Cv p * (t2 - T1 p)"
    using generate_extra_data_energy [OF g ne(1,2)] assms by simp_all
  moreover have "T1 g = T1 p" "V1 g = V1 p" "P1 g = P1 p" "n g = n p"
    by (simp_all add: generate_extra_data_fields [OF g])
  moreover have "volume g \<noteq> []" "pressure g \<noteq> []" "temperature g \<noteq> []"
    using ne by (simp_all add: generate_extra_data_fields(1-3) [OF g])
  ultimately show ?thesis by (rule that)
qed

subsection \<open>The Otto cycle\<close>

lemma eight_powr: "(8 :: real) powr (2 / 3) = 4"
proof -
  have a: "(2 :: real) powr 3 = 8" by simp
  have "(8 :: real) powr (2 / 3) = (2 powr 3) powr (2 / 3)" by (simp only: a)
  also have "\<dots> = 2 powr (3 * (2 / 3))" by (rule powr_powr)
  also have "\<dots> = 2 powr 2" by simp
  also have "\<dots> = 4" by simp
  finally show ?thesis .
qed

lemma K_ge2: "2 \<le> K" by (simp add: K_def)

lemma new_process_three_VT:
  "v \<noteq> 0 \<Longrightarrow> new_process k None (Some m) None (Some v) (Some t) False False NoGas
    = Inr \<lparr> kind = k, n = m, P1 = m * R * t / v, V1 = v, T1 = t, Cv = 3 / 2 * R, Cp = 5 / 2 * R,
          gamma = 5 / 3, diameter = 3 / 10 ^ 10, M = None \<rparr>"
  by (simp add: new_process_def BaseProcess_capacities_def find_missing_def)

text \<open>
  Claim C4 at \<^verbatim>\<open>Otto(compression_ratio=8, T_cold=300, T_hot=1200, V1=0.01, n=1,
  monatomic=True)\<close>: the cycle run completes, and the second process starts at \<open>T1 = 300\<close>
  although the first ended at 1200; the fourth starts at 1200 although the third ended
  at 300.
\<close>

theorem Otto_start_is_not_previous_end:
  "\<exists>c. Otto_init [] 8 300 1200 None (Some (1 / 100)) (Some 1) True False = Inr c
     \<and> length (cyc_processes c) = 4
     \<and> last (temperature (cyc_processes c ! 0)) = 1200 \<and> T1 (cyc_processes c ! 1) = 300
     \<and> last (temperature (cyc_processes c ! 2)) = 300 \<and> T1 (cyc_processes c ! 3) = 1200"
proof -
  define a1 where "a1 = \<lparr> kind = Adiabatic, n = 1, P1 = 1 * R * 300 / (1 / 100), V1 = 1 / 100, T1 = 300,
    Cv = 3 / 2 * R, Cp = 5 / 2 * R, gamma = 5 / 3, diameter = 3 / 10 ^ 10, M = None \<rparr>"
  define c1 where "c1 = \<lparr> kind = Isochoric, n = 1, P1 = 1 * R * 300 / (1 / 800), V1 = 1 / 800, T1 = 300,
    Cv = 3 / 2 * R, Cp = 5 / 2 * R, gamma = 5 / 3, diameter = 3 / 10 ^ 10, M = None \<rparr>"
  define a2 where "a2 = \<lparr> kind = Adiabatic, n = 1, P1 = 1 * R * 1200 / (1 / 800), V1 = 1 / 800, T1 = 1200,
    Cv = 3 / 2 * R, Cp = 5 / 2 * R, gamma = 5 / 3, diameter = 3 / 10 ^ 10, M = None \<rparr>"
  define c2 where "c2 = \<lparr> kind = Isochoric, n = 1, P1 = 1 * R * 1200 / (1 / 100), V1 = 1 / 100, T1 = 1200,
    Cv = 3 / 2 * R, Cp = 5 / 2 * R, gamma = 5 / 3, diameter = 3 / 10 ^ 10, M = None \<rparr>"
  have i1: "Adiabatic_init None (Some 1) None (Some (1 / 100)) (Some 300) False False NoGas = Inr a1"
    by (simp add: Adiabatic_init_def new_process_three_VT a1_def)
  have i2: "Isochoric_init (Some 1) (Some (1 / 800)) (Some 300) None False False NoGas = Inr c1"
    by (simp add: Isochoric_init_def new_process_three_VT c1_def)
  have i3: "Adiabatic_init None (Some 1) None (Some (1 / 800)) (Some 1200) False False NoGas = Inr a2"
    by (simp add: Adiabatic_init_def new_process_three_VT a2_def)
  have i4: "Isochoric_init (Some 1) (Some (1 / 100)) (Some 1200) None False False NoGas = Inr c2"
    by (simp add: Isochoric_init_def new_process_three_VT c2_def)
  obtain g1 where g1: "generate_data_from_dV a1 (1 / 800) K = Inr g1"
    and e1: "last (volume g1) = 1 / 800" "last (temperature g1) = T2_from_V2 a1 (1 / 800)"
      "work_done_by g1 = - (n a1 * Cv a1 * (T2_from_V2 a1 (1 / 800) - T1 a1))" "heat_absorbed g1 = 0"
      "volume g1 \<noteq> []"
    using Adiabatic_dV_summary [of a1 K "1 / 800"] K_ge2 by (auto simp: a1_def)
  have t1: "T2_from_V2 a1 (1 / 800) = 1200" by (simp add: T2_from_V2_def a1_def eight_powr)
  obtain g2 where g2: "generate_data_from_dT c1 1200 K = Inr g2"
    and e2: "last (volume g2) = 1 / 800" "T1 g2 = 300"
      "work_done_by g2 = 0" "heat_absorbed g2 = n c1 * Cv c1 * (1200 - T1 c1)"
      "volume g2 \<noteq> []"
    using Isochoric_dT_summary [of c1 K 1200] K_ge2 by (auto simp: c1_def)
  obtain g3 where g3: "generate_data_from_dV a2 (1 / 100) K = Inr g3"
    and e3: "last (volume g3) = 1 / 100" "last (temperature g3) = T2_from_V2 a2 (1 / 100)"
      "work_done_by g3 = - (n a2 * Cv a2 * (T2_from_V2 a2 (1 / 100) - T1 a2))" "heat_absorbed g3 = 0"
      "volume g3 \<noteq> []"
    using Adiabatic_dV_summary [of a2 K "1 / 100"] K_ge2 by (auto simp: a2_def)
  have t3: "T2_from_V2 a2 (1 / 100) = 300" by (simp add: T2_from_V2_def a2_def eighth_powr)
  obtain g4 where g4: "generate_data_from_dT c2 300 K = Inr g4"
    and e4: "T1 g4 = 1200"
      "work_done_by g4 = 0" "heat_absorbed g4 = n c2 * Cv c2 * (300 - T1 c2)"
    using Isochoric_dT_summary [of c2 K 300] K_ge2 by (auto simp: c2_def)
  have gen: "Otto_generate_processes 1 (1 / 100) 1200 300 (1 / 8) 8 False = Inr [g1, g2, g3, g4]"
    by (simp add: Otto_generate_processes_def i1 g1 last_py_def e1 i2 g2 e2 i3 g3 e3 i4 g4)
  have heats: "map heat_absorbed [g1, g2, g3, g4] = [0, 1350 * R, 0, - (1350 * R)]"
    by (simp add: e1 e2 e3 e4 c1_def c2_def)
  have w1: "work_done_by g1 = - (1350 * R)" unfolding e1 t1 by (simp add: a1_def)
  have w3: "work_done_by g3 = 1350 * R" unfolding e3 t3 by (simp add: a2_def)
  have works: "map work_done_by [g1, g2, g3, g4] = [- (1350 * R), 0, 1350 * R, 0]"
    by (simp add: w1 w3 e2 e4)
  have eff: "calculate_efficiency [0, 1350 * R, 0, - (1350 * R)] [- (1350 * R), 0, 1350 * R, 0] = Inr 0"
    by (simp add: calculate_efficiency_def Let_def R_def pydiv_def allowed_error_def)
  obtain c where c: "Otto_init [] 8 300 1200 None (Some (1 / 100)) (Some 1) True False = Inr c"
    and pc: "cyc_processes c = [g1, g2, g3, g4]"
    using gen heats works eff
    by (simp add: Otto_init_def BaseCycle_capacities_def BaseCycle_find_missing_def
        Otto_calculate_alpha_beta_def run_cycle_def Let_def)
  show ?thesis
    by (rule exI [of _ c]) (simp add: c pc e1 t1 e2 e3 t3 e4)
qed

subsection \<open>The Carnot cycle\<close>

lemma efficiency_mismatch_reversed:
  assumes "0 < Q"
  shows "calculate_efficiency [- (500 * Q), 0, 300 * Q, 0] [- (500 * Q), W, 300 * Q, - W]
    = Inl EfficiencyMismatchError"
  using assms by (simp add: calculate_efficiency_def Let_def pydiv_def allowed_error_def)

lemma efficiency_forward:
  assumes "0 < Q"
  shows "calculate_efficiency [500 * Q, 0, - (300 * Q), 0] [500 * Q, W, - (300 * Q), - W]
    = Inr (2 / 5)"
  using assms by (simp add: calculate_efficiency_def Let_def pydiv_def allowed_error_def)

lemma three_fifths_powr:
  fixes w w' :: real
  defines "w \<equiv> (3 / 5) powr (3 / 2)" and "w' \<equiv> (5 / 3) powr (3 / 2)"
  shows "0 < w" "0 < w'" "w * w' = 1" "w * w = 27 / 125" "1 < w'"
    "(5 / 3 :: real) powr (5 / 2) = w' * (5 / 3)"
proof -
  show "0 < w" "0 < w'" by (simp_all add: w_def w'_def)
  have "w * w' = ((3 / 5) * (5 / 3)) powr (3 / 2)" unfolding w_def w'_def by (rule powr_mult [symmetric])
  then show "w * w' = 1" by simp
  have "w * w = (3 / 5) powr (3 / 2 + 3 / 2)" unfolding w_def by (rule powr_add [symmetric])
  then show "w * w = 27 / 125" by (simp add: power3_eq_cube)
  show "1 < w'" unfolding w'_def by (rule gr_one_powr) simp_all
  have "(5 / 3 :: real) powr (3 / 2 + 1) = (5 / 3) powr (3 / 2) * (5 / 3) powr 1" by (rule powr_add)
  then show "(5 / 3 :: real) powr (5 / 2) = w' * (5 / 3)" by (simp add: w'_def)
qed

lemma Carnot_chain:
  fixes r :: real
  assumes "0 < r"
  defines "al \<equiv> r * (3 / 5) powr (3 / 2)" and "be \<equiv> 1 / r * (5 / 3) powr (3 / 2)"
  shows "\<exists>g1 g2 g3 g4.
      Carnot_generate_processes 1 (50000 * R) (1 / 100) 500 300 r al be False = Inr [g1, g2, g3, g4]
    \<and> map heat_absorbed [g1, g2, g3, g4] = [500 * (R * ln al), 0, - (300 * (R * ln al)), 0]
    \<and> map work_done_by [g1, g2, g3, g4]
        = [500 * (R * ln al), 300 * R, - (300 * (R * ln al)), - (300 * R)]
    \<and> last (volume g4) = 1 / 100 \<and> last (temperature g4) = 500
    \<and> last (pressure g4) = 50000 * R"
proof -
  define w :: real where "w = (3 / 5) powr (3 / 2)"
  define w' :: real where "w' = (5 / 3) powr (3 / 2)"
  note wf = three_fifths_powr [folded w_def w'_def]
  have al: "al = r * w" and be: "be = 1 / r * w'" by (simp_all add: al_def be_def w_def w'_def)
  have albe: "al * be = 1" using wf(3) assms(1) by (simp add: al be)
  have bepos: "0 < be" "0 < al" using wf(1,2) assms(1) by (simp_all add: al be)
  have lnbe: "ln be = - ln al"
    using ln_mult [of al be] bepos albe by simp
  define va where "va = al * (1 / 100)"
  define v3 where "v3 = 1 / 100 * r"
  define vb where "vb = be * v3"
  have vpos: "0 < va" "0 < vb" "0 < v3" using bepos assms(1) by (simp_all add: va_def vb_def v3_def)
  define p1r where "p1r = \<lparr> kind = Isothermal, n = 1, P1 = 1 * R * 500 / (1 / 100), V1 = 1 / 100,
    T1 = 500, Cv = 3 / 2 * R, Cp = 5 / 2 * R, gamma = 5 / 3, diameter = 3 / 10 ^ 10, M = None \<rparr>"
  define a1r where "a1r = \<lparr> kind = Adiabatic, n = 1, P1 = 1 * R * 500 / va, V1 = va,
    T1 = 500, Cv = 3 / 2 * R, Cp = 5 / 2 * R, gamma = 5 / 3, diameter = 3 / 10 ^ 10, M = None \<rparr>"
  define p3r where "p3r = \<lparr> kind = Isothermal, n = 1, P1 = 1 * R * 300 / v3, V1 = v3,
    T1 = 300, Cv = 3 / 2 * R, Cp = 5 / 2 * R, gamma = 5 / 3, diameter = 3 / 10 ^ 10, M = None \<rparr>"
  define a2r where "a2r = \<lparr> kind = Adiabatic, n = 1, P1 = 1 * R * 300 / vb, V1 = vb,
    T1 = 300, Cv = 3 / 2 * R, Cp = 5 / 2 * R, gamma = 5 / 3, diameter = 3 / 10 ^ 10, M = None \<rparr>"
  have i1: "Isothermal_init (Some 1) (Some 500) (Some (1 / 100)) None False False NoGas = Inr p1r"
    by (simp add: Isothermal_init_def new_process_three_VT p1r_def)
  have i2: "Adiabatic_init None (Some 1) None (Some va) (Some 500) False False NoGas = Inr a1r"
    using vpos by (simp add: Adiabatic_init_def new_process_three_VT a1r_def)
  have i3: "Isothermal_init (Some 1) (Some 300) (Some v3) None False False NoGas = Inr p3r"
    using vpos by (simp add: Isothermal_init_def new_process_three_VT p3r_def)
  have i4: "Adiabatic_init None (Some 1) None (Some vb) (Some 300) False False NoGas = Inr a2r"
    using vpos by (simp add: Adiabatic_init_def new_process_three_VT a2r_def)
  obtain g1 where g1: "generate_data_from_dV p1r va K = Inr g1"
    and e1: "last (volume g1) = va" "last (temperature g1) = T1 p1r"
      "work_done_by g1 = R * n p1r * T1 p1r * ln (va / V1 p1r)"
      "heat_absorbed g1 = R * n p1r * T1 p1r * ln (va / V1 p1r)"
      "volume g1 \<noteq> []" "temperature g1 \<noteq> []"
    using Isothermal_dV_summary [of p1r K va] K_ge2 by (auto simp: p1r_def)
  obtain g2 where g2: "generate_data_from_dT a1r 300 K = Inr g2"
    and e2: "last (volume g2) = V2_from_T2 a1r (1 / (gamma a1r - 1)) 300"
      "work_done_by g2 = - (n a1r * Cv a1r * (300 - T1 a1r))" "heat_absorbed g2 = 0"
      "volume g2 \<noteq> []"
    using Adiabatic_dT_summary [of a1r K 300] K_ge2 by (auto simp: a1r_def)
  obtain g3 where g3: "generate_data_from_dV p3r vb K = Inr g3"
    and e3: "last (volume g3) = vb" "last (temperature g3) = T1 p3r"
      "work_done_by g3 = R * n p3r * T1 p3r * ln (vb / V1 p3r)"
      "heat_absorbed g3 = R * n p3r * T1 p3r * ln (vb / V1 p3r)"
      "volume g3 \<noteq> []" "temperature g3 \<noteq> []"
    using Isothermal_dV_summary [of p3r K vb] K_ge2 by (auto simp: p3r_def)
  obtain g4 where g4: "generate_data_from_dT a2r 500 K = Inr g4"
    and e4: "last (volume g4) = V2_from_T2 a2r (1 / (gamma a2r - 1)) 500"
      "last (temperature g4) = 500"
      "last (pressure g4) = P2_from_T2 a2r (gamma a2r / (gamma a2r - 1)) 500"
      "work_done_by g4 = - (n a2r * Cv a2r * (500 - T1 a2r))" "heat_absorbed g4 = 0"
      "volume g4 \<noteq> []" "temperature g4 \<noteq> []" "pressure g4 \<noteq> []"
    using Adiabatic_dT_summary [of a2r K 500] K_ge2 by (auto simp: a2r_def)
  have t1: "T1 p1r = 500" "T1 p3r = 300" by (simp_all add: p1r_def p3r_def)
  have "V2_from_T2 a1r (1 / (gamma a1r - 1)) 300 = va * w'"
    by (simp add: V2_from_T2_def a1r_def w'_def)
  also have "\<dots> = r * (w * w') / 100" by (simp add: va_def al)
  also have "\<dots> = v3" by (simp add: wf(3) v3_def)
  finally have l2: "last (volume g2) = v3" by (simp add: e2)
  have "V2_from_T2 a2r (1 / (gamma a2r - 1)) 500 = vb * w"
    by (simp add: V2_from_T2_def a2r_def w_def)
  also have "\<dots> = (w * w') / 100" using assms(1) by (simp add: vb_def be v3_def)
  also have "\<dots> = 1 / 100" by (simp add: wf(3))
  finally have l4: "last (volume g4) = 1 / 100" by (simp add: e4)
  have vb: "vb = w' / 100" using assms(1) by (simp add: vb_def be v3_def)
  have "P2_from_T2 a2r (gamma a2r / (gamma a2r - 1)) 500 = 1 * R * 300 / vb * (w' * (5 / 3))"
    by (simp add: P2_from_T2_def a2r_def wf(6))
  also have "\<dots> = 50000 * R"
    using wf(2) by (simp add: vb field_simps)
  finally have p4: "last (pressure g4) = 50000 * R" by (simp add: e4)
  have c1: "\<bar>v3 - 1 / 100 * r\<bar> < allowed_error" by (simp add: v3_def allowed_error_def)
  have c2: "\<bar>1 / 100 - 1 / 100\<bar> < allowed_error" "\<bar>500 - 500\<bar> < allowed_error"
    "\<bar>50000 * R - 50000 * R\<bar> < allowed_error"
    by (simp_all add: allowed_error_def)
  have l1: "last (temperature g1) = 500" "last (temperature g3) = 300" by (simp_all add: e1 e3 t1)
  have gen: "Carnot_generate_processes 1 (50000 * R) (1 / 100) 500 300 r al be False
     = Inr [g1, g2, g3, g4]"
    by (simp only: Carnot_generate_processes_def i1 bind.simps va_def [symmetric] g1 last_py_def
        e1(1,5,6) l1 if_False i2 g2 e2(4) l2 c1 not_True_eq_False i3 vb_def [symmetric] g3
        e3(1,5,6) i4 g4 e4(2,6,7,8) l4 p4 c2)
  have q1: "heat_absorbed g1 = 500 * (R * ln al)" "work_done_by g1 = 500 * (R * ln al)"
    unfolding e1 by (simp_all add: p1r_def va_def)
  have "vb / V1 p3r = be" using vpos by (simp add: p3r_def vb_def)
  then have q3: "heat_absorbed g3 = - (300 * (R * ln al))" "work_done_by g3 = - (300 * (R * ln al))"
    unfolding e3 by (simp_all add: p3r_def lnbe)
  have q2: "work_done_by g2 = 300 * R" unfolding e2 by (simp add: a1r_def)
  have q4: "work_done_by g4 = - (300 * R)" unfolding e4 by (simp add: a2r_def)
  have heats: "map heat_absorbed [g1, g2, g3, g4] = [500 * (R * ln al), 0, - (300 * (R * ln al)), 0]"
    by (simp add: q1 q3 e2 e4)
  have works: "map work_done_by [g1, g2, g3, g4]
    = [500 * (R * ln al), 300 * R, - (300 * (R * ln al)), - (300 * R)]"
    by (simp add: q1 q2 q3 q4)
  show ?thesis
    by (rule exI [of _ g1], rule exI [of _ g2], rule exI [of _ g3], rule exI [of _ g4])
      (simp only: gen heats works l4 e4(2) p4)
qed


lemma three_fifths_powr_bounds:
  fixes w :: real
  defines "w \<equiv> (3 / 5) powr (3 / 2)"
  shows "1 / 3 < w" "w < 1 / 2"
proof -
  note wf = three_fifths_powr [folded w_def]
  show "w < 1 / 2"
  proof (rule ccontr)
    assume "\<not> w < 1 / 2"
    then have "1 / 2 \<le> w" by simp
    then have "(1 / 2) * (1 / 2) \<le> w * w" by (intro mult_mono) simp_all
    with wf(4) show False by simp
  qed
  show "1 / 3 < w"
  proof (rule ccontr)
    assume "\<not> 1 / 3 < w"
    then have "w \<le> 1 / 3" by simp
    then have "w * w \<le> (1 / 3) * (1 / 3)" using wf(1) by (intro mult_mono) simp_all
    with wf(4) show False by simp
  qed
qed

lemma Carnot_alpha_beta_500_300:
  "0 < r \<Longrightarrow> Carnot_calculate_alpha_beta r 500 300 (5 / 3)
     = Inr (r * (3 / 5) powr (3 / 2), 1 / r * (5 / 3) powr (3 / 2))"
  using three_fifths_powr(1,5) by (simp add: Carnot_alpha_beta_value Let_def)

lemma Carnot_ratio_two:
  "Carnot_init subs 2 500 300 None (Some (1 / 100)) (Some 1) True False = Inl EfficiencyMismatchError"
proof -
  define w :: real where "w = (3 / 5) powr (3 / 2)"
  define w' :: real where "w' = (5 / 3) powr (3 / 2)"
  obtain g1 g2 g3 g4 where gen: "Carnot_generate_processes 1 (50000 * R) (1 / 100) 500 300 2
        (2 * w) (1 / 2 * w') False = Inr [g1, g2, g3, g4]"
    and h: "map heat_absorbed [g1, g2, g3, g4] = [500 * (R * ln (2 * w)), 0, - (300 * (R * ln (2 * w))), 0]"
    and k: "map work_done_by [g1, g2, g3, g4]
        = [500 * (R * ln (2 * w)), 300 * R, - (300 * (R * ln (2 * w))), - (300 * R)]"
    using Carnot_chain [of 2] unfolding w_def w'_def by auto
  have gen': "Carnot_generate_processes 1 (50000 * R) (1 / 100) 500 300 2 (2 * w) (w' / 2) False
      = Inr [g1, g2, g3, g4]"
    using gen by simp
  have "0 < w" "w < 1 / 2"
    using three_fifths_powr(1) three_fifths_powr_bounds(2) by (simp_all add: w_def)
  then have "ln (2 * w) < 0" by (simp add: ln_less_zero_iff)
  then have Q: "0 < - (R * ln (2 * w))" using R_pos by (simp add: mult_less_0_iff)
  have eff: "calculate_efficiency (map heat_absorbed [g1, g2, g3, g4]) (map work_done_by [g1, g2, g3, g4])
    = Inl EfficiencyMismatchError"
    unfolding h k using efficiency_mismatch_reversed [OF Q, of "300 * R"] by simp
  show ?thesis
    using eff
    by (simp add: Carnot_init_def BaseCycle_capacities_def BaseCycle_find_missing_def
        Carnot_alpha_beta_500_300 w_def [symmetric] w'_def [symmetric] gen' run_cycle_def Let_def)
qed

text \<open>
  Claim C3 with the compression ratio 3 in place of 2:
  \<^verbatim>\<open>Carnot(3, 500, 300, V1=0.01, n=1, monatomic=True)\<close> is constructed. Its
  \<open>\<alpha> = 3 (3/5)^(3/2)\<close> exceeds 1, its efficiency is within \<open>allowed_error\<close> of
  \<open>1 - 300/500\<close>, and the last volume, pressure and temperature of its fourth process are
  within \<open>allowed_error\<close> of the initial ones.
\<close>

theorem Carnot_ratio_three_completes:
  "\<exists>c. Carnot_init subs 3 500 300 None (Some (1 / 100)) (Some 1) True False = Inr c
     \<and> compression_ratio c = 3 \<and> T_hot c = 500 \<and> T_cold c = 300 \<and> cyc_n c = 1
     \<and> cyc_V1 c = 1 / 100 \<and> cyc_P1 c = 1 * R * 500 / (1 / 100)
     \<and> alpha c = 3 * (300 / 500) powr (1 / (5 / 3 - 1)) \<and> 1 < alpha c
     \<and> \<bar>efficiency c - (1 - 300 / 500)\<bar> < allowed_error
     \<and> length (cyc_processes c) = 4
     \<and> \<bar>last (volume (cyc_processes c ! 3)) - cyc_V1 c\<bar> < allowed_error
     \<and> \<bar>last (pressure (cyc_processes c ! 3)) - cyc_P1 c\<bar> < allowed_error
     \<and> \<bar>last (temperature (cyc_processes c ! 3)) - T_hot c\<bar> < allowed_error"
proof -
  define w :: real where "w = (3 / 5) powr (3 / 2)"
  define w' :: real where "w' = (5 / 3) powr (3 / 2)"
  obtain f1 f2 f3 f4 where gen: "Carnot_generate_processes 1 (50000 * R) (1 / 100) 500 300 3
        (3 * w) (1 / 3 * w') False = Inr [f1, f2, f3, f4]"
    and h: "map heat_absorbed [f1, f2, f3, f4] = [500 * (R * ln (3 * w)), 0, - (300 * (R * ln (3 * w))), 0]"
    and k: "map work_done_by [f1, f2, f3, f4]
        = [500 * (R * ln (3 * w)), 300 * R, - (300 * (R * ln (3 * w))), - (300 * R)]"
    and e: "last (volume f4) = 1 / 100" "last (temperature f4) = 500" "last (pressure f4) = 50000 * R"
    using Carnot_chain [of 3] unfolding w_def w'_def by auto
  have gen': "Carnot_generate_processes 1 (50000 * R) (1 / 100) 500 300 3 (3 * w) (w' / 3) False
      = Inr [f1, f2, f3, f4]"
    using gen by simp
  have wgt: "1 / 3 < w" using three_fifths_powr_bounds(1) by (simp add: w_def)
  then have "0 < ln (3 * w)" by simp
  then have Q: "0 < R * ln (3 * w)" using R_pos by simp
  have eff: "calculate_efficiency (map heat_absorbed [f1, f2, f3, f4]) (map work_done_by [f1, f2, f3, f4])
    = Inr (2 / 5)"
    unfolding h k using efficiency_forward [OF Q, of "300 * R"] by simp
  have al: "1 < 3 * w" using wgt by simp
  show ?thesis
    using eff al e
    by (simp add: Carnot_init_def BaseCycle_capacities_def BaseCycle_find_missing_def
        Carnot_alpha_beta_500_300 w_def [symmetric] w'_def [symmetric] gen' run_cycle_def Let_def
        new_cycle_def allowed_error_def)
qed

text \<open>
  The claim as stated fails: with the compression ratio 2 the constructor raises.
\<close>

theorem Carnot_spec_example_raises:
  "Carnot_init [] 2 500 300 None (Some (1 / 100)) (Some 1) True False = Inl EfficiencyMismatchError"
  by (rule Carnot_ratio_two)

end
